theory Spec2Isabelle
  imports Main "HOL-Library.AList" "HOL-Library.Sublist"
begin

section \<open>The company table view-model and the authentication gate\<close>

text \<open>
  A shallow embedding of \<open>company-summary/src/components/CompanyTable.tsx\<close> (the
  component \<open>CompanyTable\<close>: row transform, filter and sort, edit overlay, CSV export,
  initial state) and of \<open>validateCredentials\<close> (the authentication service).

  JavaScript strings are modelled as HOL strings, a JavaScript object used as a dictionary
  as an association list in insertion order (looked up with \<open>map_of\<close>), \<open>undefined\<close> as
  \<open>None\<close>, and a thrown exception as the left injection of a sum.
  The functions of the JavaScript runtime that the code calls and that are no part of the
  repository (\<open>JSON.parse\<close>, \<open>JSON.stringify\<close>, \<open>Date\<close>, \<open>localeCompare\<close>, \<open>fetch\<close>) are
  parameters of the model, collected in the record \<open>host\<close>.
\<close>

subsection \<open>String primitives\<close>

text \<open>\<open>String.prototype.toLowerCase\<close>, on the ASCII letters.\<close>

definition toLowerCase_char :: "char \<Rightarrow> char" where
  "toLowerCase_char c =
     (let n = (of_char c :: nat) in if 65 \<le> n \<and> n \<le> 90 then char_of (n + 32) else c)"

definition toLowerCase :: "string \<Rightarrow> string" where
  "toLowerCase s = map toLowerCase_char s"

text \<open>\<open>hay.includes(needle)\<close>: some suffix of \<open>hay\<close> starts with \<open>needle\<close>.\<close>

fun str_includes :: "string \<Rightarrow> string \<Rightarrow> bool" where
  "str_includes [] needle = (needle = [])"
| "str_includes (c # cs) needle = (prefix needle (c # cs) \<or> str_includes cs needle)"

text \<open>\<open>Array.prototype.join\<close>.\<close>

fun join :: "string \<Rightarrow> string list \<Rightarrow> string" where
  "join sep [] = []"
| "join sep [x] = x"
| "join sep (x # y # ys) = x @ sep @ join sep (y # ys)"

text \<open>The white space of \<open>\s\<close> and of \<open>trim\<close>, on the ASCII characters.\<close>

definition is_space :: "char \<Rightarrow> bool" where
  "is_space c = (let n = (of_char c :: nat) in n = 32 \<or> (9 \<le> n \<and> n \<le> 13))"

definition trim :: "string \<Rightarrow> string" where
  "trim s = rev (dropWhile is_space (rev (dropWhile is_space s)))"

text \<open>\<open>s.replace(/\s+/g, '_')\<close>: every maximal run of white space becomes one underscore.\<close>

fun replace_spaces_from :: "bool \<Rightarrow> string \<Rightarrow> string" where
  "replace_spaces_from in_run [] = []"
| "replace_spaces_from in_run (c # cs) =
     (if is_space c
      then (if in_run then replace_spaces_from True cs
            else CHR ''_'' # replace_spaces_from True cs)
      else c # replace_spaces_from False cs)"

definition replace_spaces :: "string \<Rightarrow> string" where
  "replace_spaces s = replace_spaces_from False s"

text \<open>\<open>s.replace(/"/g, '').replace(/,/g, ', ')\<close>.\<close>

definition strip_quotes_space_commas :: "string \<Rightarrow> string" where
  "strip_quotes_space_commas s =
     concat (map (\<lambda>c. if c = CHR '','' then '', '' else [c]) (filter (\<lambda>c. c \<noteq> CHR 0x22) s))"

text \<open>\<open>x || d\<close> for an optional string \<open>x\<close>: \<open>undefined\<close> and the empty string are falsy.\<close>

definition or_else :: "string option \<Rightarrow> string \<Rightarrow> string" where
  "or_else x d = (case x of None \<Rightarrow> d | Some s \<Rightarrow> if s = [] then d else s)"

subsection \<open>Records of the table\<close>

text \<open>\<open>keyof Company\<close>, in the order of the interface.\<close>

datatype field =
    Company_name | State | Investment_grade | Investment_grade_summary
  | Investment_grade_citations | Est_annual_revenue | Est_annual_revenue_citations
  | Est_yoy_growth | Est_yoy_growth_citations | Pe_backed | Pe_backed_citations
  | Can_accommodate_allocation | Can_accommodate_allocation_citations
  | Good_reputation | Good_reputation_citations | Website | Contact_info
  | Last_interaction_date | Last_interaction_id
  | Annual_average_employees_2020 | Annual_average_employees_2021
  | Annual_average_employees_2022 | Annual_average_employees_2023
  | Annual_average_employees_2024
  | Total_hours_worked_2020 | Total_hours_worked_2021 | Total_hours_worked_2022
  | Total_hours_worked_2023 | Total_hours_worked_2024

fun field_name :: "field \<Rightarrow> string" where
  "field_name Company_name = ''company_name''"
| "field_name State = ''state''"
| "field_name Investment_grade = ''investment_grade''"
| "field_name Investment_grade_summary = ''investment_grade_summary''"
| "field_name Investment_grade_citations = ''investment_grade_citations''"
| "field_name Est_annual_revenue = ''est_annual_revenue''"
| "field_name Est_annual_revenue_citations = ''est_annual_revenue_citations''"
| "field_name Est_yoy_growth = ''est_yoy_growth''"
| "field_name Est_yoy_growth_citations = ''est_yoy_growth_citations''"
| "field_name Pe_backed = ''pe_backed''"
| "field_name Pe_backed_citations = ''pe_backed_citations''"
| "field_name Can_accommodate_allocation = ''can_accommodate_allocation''"
| "field_name Can_accommodate_allocation_citations = ''can_accommodate_allocation_citations''"
| "field_name Good_reputation = ''good_reputation''"
| "field_name Good_reputation_citations = ''good_reputation_citations''"
| "field_name Website = ''website''"
| "field_name Contact_info = ''contact_info''"
| "field_name Last_interaction_date = ''last_interaction_date''"
| "field_name Last_interaction_id = ''last_interaction_id''"
| "field_name Annual_average_employees_2020 = ''annual_average_employees_2020''"
| "field_name Annual_average_employees_2021 = ''annual_average_employees_2021''"
| "field_name Annual_average_employees_2022 = ''annual_average_employees_2022''"
| "field_name Annual_average_employees_2023 = ''annual_average_employees_2023''"
| "field_name Annual_average_employees_2024 = ''annual_average_employees_2024''"
| "field_name Total_hours_worked_2020 = ''total_hours_worked_2020''"
| "field_name Total_hours_worked_2021 = ''total_hours_worked_2021''"
| "field_name Total_hours_worked_2022 = ''total_hours_worked_2022''"
| "field_name Total_hours_worked_2023 = ''total_hours_worked_2023''"
| "field_name Total_hours_worked_2024 = ''total_hours_worked_2024''"

text \<open>The keys of the \<open>filters\<close> object, in the order \<open>Object.entries\<close> visits them.\<close>

definition all_fields :: "field list" where
  "all_fields =
     [Company_name, State, Investment_grade, Investment_grade_summary,
      Investment_grade_citations, Est_annual_revenue, Est_annual_revenue_citations,
      Est_yoy_growth, Est_yoy_growth_citations, Pe_backed, Pe_backed_citations,
      Can_accommodate_allocation, Can_accommodate_allocation_citations,
      Good_reputation, Good_reputation_citations, Website, Contact_info,
      Last_interaction_date, Last_interaction_id,
      Annual_average_employees_2020, Annual_average_employees_2021,
      Annual_average_employees_2022, Annual_average_employees_2023,
      Annual_average_employees_2024,
      Total_hours_worked_2020, Total_hours_worked_2021, Total_hours_worked_2022,
      Total_hours_worked_2023, Total_hours_worked_2024]"

text \<open>\<open>interface Company\<close>; a field marked \<open>?\<close> is an option.\<close>

record Company =
  company_name :: string
  state :: string
  investment_grade :: string
  investment_grade_summary :: string
  investment_grade_citations :: "string list"
  est_annual_revenue :: string
  est_annual_revenue_citations :: "string list"
  est_yoy_growth :: string
  est_yoy_growth_citations :: "string list"
  pe_backed :: string
  pe_backed_citations :: "string list"
  can_accommodate_allocation :: string
  can_accommodate_allocation_citations :: "string list"
  good_reputation :: string
  good_reputation_citations :: "string list"
  website :: "string option"
  contact_info :: "string option"
  last_interaction_date :: "string option"
  last_interaction_id :: "string option"
  annual_average_employees_2020 :: "string option"
  annual_average_employees_2021 :: "string option"
  annual_average_employees_2022 :: "string option"
  annual_average_employees_2023 :: "string option"
  annual_average_employees_2024 :: "string option"
  total_hours_worked_2020 :: "string option"
  total_hours_worked_2021 :: "string option"
  total_hours_worked_2022 :: "string option"
  total_hours_worked_2023 :: "string option"
  total_hours_worked_2024 :: "string option"

text \<open>The value of \<open>company[key]\<close>: a string, an array of strings, or \<open>undefined\<close>.\<close>

datatype fval = VStr string | VList "string list" | VUndef

definition opt_val :: "string option \<Rightarrow> fval" where
  "opt_val x = (case x of None \<Rightarrow> VUndef | Some s \<Rightarrow> VStr s)"

fun get :: "Company \<Rightarrow> field \<Rightarrow> fval" where
  "get c Company_name = VStr (company_name c)"
| "get c State = VStr (state c)"
| "get c Investment_grade = VStr (investment_grade c)"
| "get c Investment_grade_summary = VStr (investment_grade_summary c)"
| "get c Investment_grade_citations = VList (investment_grade_citations c)"
| "get c Est_annual_revenue = VStr (est_annual_revenue c)"
| "get c Est_annual_revenue_citations = VList (est_annual_revenue_citations c)"
| "get c Est_yoy_growth = VStr (est_yoy_growth c)"
| "get c Est_yoy_growth_citations = VList (est_yoy_growth_citations c)"
| "get c Pe_backed = VStr (pe_backed c)"
| "get c Pe_backed_citations = VList (pe_backed_citations c)"
| "get c Can_accommodate_allocation = VStr (can_accommodate_allocation c)"
| "get c Can_accommodate_allocation_citations = VList (can_accommodate_allocation_citations c)"
| "get c Good_reputation = VStr (good_reputation c)"
| "get c Good_reputation_citations = VList (good_reputation_citations c)"
| "get c Website = opt_val (website c)"
| "get c Contact_info = opt_val (contact_info c)"
| "get c Last_interaction_date = opt_val (last_interaction_date c)"
| "get c Last_interaction_id = opt_val (last_interaction_id c)"
| "get c Annual_average_employees_2020 = opt_val (annual_average_employees_2020 c)"
| "get c Annual_average_employees_2021 = opt_val (annual_average_employees_2021 c)"
| "get c Annual_average_employees_2022 = opt_val (annual_average_employees_2022 c)"
| "get c Annual_average_employees_2023 = opt_val (annual_average_employees_2023 c)"
| "get c Annual_average_employees_2024 = opt_val (annual_average_employees_2024 c)"
| "get c Total_hours_worked_2020 = opt_val (total_hours_worked_2020 c)"
| "get c Total_hours_worked_2021 = opt_val (total_hours_worked_2021 c)"
| "get c Total_hours_worked_2022 = opt_val (total_hours_worked_2022 c)"
| "get c Total_hours_worked_2023 = opt_val (total_hours_worked_2023 c)"
| "get c Total_hours_worked_2024 = opt_val (total_hours_worked_2024 c)"

subsection \<open>Values read from JSON text\<close>

datatype error = SyntaxError | TypeError | Error string

text \<open>\<open>interface MetricData\<close>. The code guards \<open>metric\<close> and \<open>citations\<close> with \<open>?.\<close> and
  \<open>||\<close>, so either may be absent from an entry.\<close>

datatype metric_value = MStr string | MBool bool

record MetricData =
  metric_name :: string
  metric :: "metric_value option"
  details :: string
  citations :: "string list option"

text \<open>The object in the \<open>investment_grade\<close> column: \<open>{grade, summary, citations}\<close>.\<close>

record GradeData =
  grade :: "string option"
  summary :: "string option"
  grade_citations :: "string list option"

text \<open>An element of the \<open>contact_info\<close> array.\<close>

record Contact =
  position :: "string option"
  first_name :: "string option"
  last_name :: "string option"
  email :: "string option"

text \<open>The two persisted overlays: \<open>Record<string, Record<string, string>>\<close> and
  \<open>Record<string, Record<string, boolean>>\<close>, keyed by company name and then by field.\<close>

type_synonym 'v overlay = "(string \<times> (string \<times> 'v) list) list"

text \<open>\<open>interface ColumnConfig\<close>.\<close>

datatype column_type = Definition | Metric

record ColumnConfig =
  key :: field
  label :: string
  col_type :: column_type
  visible :: bool
  order :: nat
  group :: "string option"

subsection \<open>The host\<close>

text \<open>
  What the JavaScript runtime computes for the code. \<open>JSON.parse\<close> is split by the type the
  code reads its result at; a left injection and \<open>None\<close> stand for the exception raised on
  text that is no JSON or on a value of another shape.
  \<^item> \<open>JSON_parse_metrics\<close>: \<open>JSON.parse(csvRow.metrics)\<close> followed by \<open>metrics.forEach\<close>;
  \<^item> \<open>JSON_parse_grade\<close>: the \<open>try\<close> block around \<open>JSON.parse(csvRow.investment_grade)\<close>,
    \<open>None\<close> when anything in it throws;
  \<^item> \<open>JSON_parse_contacts\<close>: the \<open>try\<close> block around \<open>JSON.parse(company.contact_info)\<close>,
    \<open>None\<close> when it throws or the value is no array;
  \<^item> \<open>toLocaleDateString\<close>: \<open>new Date(s).toLocaleDateString('en-US', ...)\<close> for a string the
    \<open>Date\<close> constructor can read, \<open>None\<close> when the date is an Invalid Date;
  \<^item> \<open>localeCompare\<close>: \<open>a.localeCompare(b, undefined, {numeric: true})\<close>.
\<close>

record host =
  JSON_parse_metrics :: "string \<Rightarrow> error + MetricData list"
  JSON_parse_grade :: "string \<Rightarrow> GradeData option"
  JSON_parse_contacts :: "string \<Rightarrow> Contact list option"
  JSON_parse_verifications :: "string \<Rightarrow> error + bool overlay"
  JSON_parse_edits :: "string \<Rightarrow> error + string overlay"
  JSON_stringify_columns :: "ColumnConfig list \<Rightarrow> string"
  JSON_stringify_verifications :: "bool overlay \<Rightarrow> string"
  JSON_stringify_edits :: "string overlay \<Rightarrow> string"
  toLocaleDateString :: "string \<Rightarrow> string option"
  localeCompare :: "string \<Rightarrow> string \<Rightarrow> int"

subsection \<open>CSV ingestion: \<open>transformCSVToCompany\<close>\<close>

text \<open>\<open>interface CompanyCSV\<close>, one row of Papa's output. A row shorter than the header has
  no \<open>metrics\<close> key at all, so that column is an option too.\<close>

record CompanyCSV =
  csv_company_name :: string
  csv_state :: string
  csv_investment_grade :: string
  csv_metrics :: "string option"
  csv_website :: "string option"
  csv_contact_info :: "string option"
  csv_last_interaction_date :: "string option"
  csv_last_interaction_id :: "string option"
  csv_annual_average_employees_2020 :: "string option"
  csv_annual_average_employees_2021 :: "string option"
  csv_annual_average_employees_2022 :: "string option"
  csv_annual_average_employees_2023 :: "string option"
  csv_annual_average_employees_2024 :: "string option"
  csv_total_hours_worked_2020 :: "string option"
  csv_total_hours_worked_2021 :: "string option"
  csv_total_hours_worked_2022 :: "string option"
  csv_total_hours_worked_2023 :: "string option"
  csv_total_hours_worked_2024 :: "string option"

text \<open>\<open>metrics.forEach(metric => metricMap.set(metric.metric_name, metric))\<close>: a later entry
  replaces an earlier one of the same name.\<close>

definition metricMap :: "MetricData list \<Rightarrow> (string \<rightharpoonup> MetricData)" where
  "metricMap metrics = foldl (\<lambda>m d. m(metric_name d \<mapsto> d)) Map.empty metrics"

fun metric_toString :: "metric_value \<Rightarrow> string" where
  "metric_toString (MStr s) = s"
| "metric_toString (MBool b) = (if b then ''true'' else ''false'')"

text \<open>\<open>metricMap.get(name)?.metric?.toString() || 'Unknown'\<close>.\<close>

definition metric_or_unknown :: "(string \<rightharpoonup> MetricData) \<Rightarrow> string \<Rightarrow> string" where
  "metric_or_unknown m name =
     or_else (case m name of None \<Rightarrow> None
              | Some d \<Rightarrow> map_option metric_toString (metric d)) ''Unknown''"

text \<open>\<open>metricMap.get(name)?.metric === true ? 'Yes' : 'No'\<close>.\<close>

definition metric_yes_no :: "(string \<rightharpoonup> MetricData) \<Rightarrow> string \<Rightarrow> string" where
  "metric_yes_no m name =
     (if (case m name of None \<Rightarrow> None | Some d \<Rightarrow> metric d) = Some (MBool True)
      then ''Yes'' else ''No'')"

text \<open>\<open>metricMap.get(name)?.citations || []\<close>.\<close>

definition metric_citations :: "(string \<rightharpoonup> MetricData) \<Rightarrow> string \<Rightarrow> string list" where
  "metric_citations m name =
     (case m name of None \<Rightarrow> []
      | Some d \<Rightarrow> (case citations d of None \<Rightarrow> [] | Some cs \<Rightarrow> cs))"

text \<open>The \<open>try\<close>/\<open>catch\<close> around the grade: grade, summary and citations.\<close>

definition parse_investment_grade :: "host \<Rightarrow> string \<Rightarrow> string \<times> string \<times> string list" where
  "parse_investment_grade h raw =
     (case JSON_parse_grade h raw of
        Some gradeData \<Rightarrow>
          (or_else (grade gradeData) ''Unknown'',
           or_else (summary gradeData) [],
           (case grade_citations gradeData of None \<Rightarrow> [] | Some cs \<Rightarrow> cs))
      | None \<Rightarrow> (raw, [], []))"

text \<open>
  The immediately invoked function of \<open>last_interaction_date\<close>. Neither \<open>new Date(s)\<close> nor
  \<open>toLocaleDateString\<close> with these arguments throws: for a string that is no date the
  constructor returns an Invalid Date and \<open>toLocaleDateString\<close> returns the string
  \<open>Invalid Date\<close>. The \<open>catch\<close> branch, which would return the raw string, is never entered.
\<close>

definition format_last_interaction_date :: "host \<Rightarrow> string option \<Rightarrow> string" where
  "format_last_interaction_date h raw =
     (case raw of
        None \<Rightarrow> []
      | Some s \<Rightarrow>
          if s = [] then []
          else (case toLocaleDateString h s of
                  Some short \<Rightarrow> short
                | None \<Rightarrow> ''Invalid Date''))"

definition format_last_interaction_id :: "string option \<Rightarrow> string" where
  "format_last_interaction_id raw =
     (case raw of None \<Rightarrow> []
      | Some s \<Rightarrow> if s = [] then [] else strip_quotes_space_commas s)"

text \<open>The record literal that \<open>transformCSVToCompany\<close> returns, given the parsed metrics.\<close>

definition company_of_metrics :: "host \<Rightarrow> CompanyCSV \<Rightarrow> MetricData list \<Rightarrow> Company" where
  "company_of_metrics h csvRow metrics =
     (let m = metricMap metrics;
          g = parse_investment_grade h (csv_investment_grade csvRow)
      in \<lparr> company_name = csv_company_name csvRow,
           state = csv_state csvRow,
           investment_grade = fst g,
           investment_grade_summary = fst (snd g),
           investment_grade_citations = snd (snd g),
           est_annual_revenue = metric_or_unknown m ''est_annual_revenue'',
           est_annual_revenue_citations = metric_citations m ''est_annual_revenue'',
           est_yoy_growth = metric_or_unknown m ''est_yoy_growth'',
           est_yoy_growth_citations = metric_citations m ''est_yoy_growth'',
           pe_backed = metric_yes_no m ''pe_backed'',
           pe_backed_citations = metric_citations m ''pe_backed'',
           can_accommodate_allocation = metric_yes_no m ''can_accommodate_allocation'',
           can_accommodate_allocation_citations =
             metric_citations m ''can_accommodate_allocation'',
           good_reputation = metric_or_unknown m ''reputation'',
           good_reputation_citations = metric_citations m ''reputation'',
           website = Some (or_else (csv_website csvRow) []),
           contact_info = Some (or_else (csv_contact_info csvRow) []),
           last_interaction_date =
             Some (format_last_interaction_date h (csv_last_interaction_date csvRow)),
           last_interaction_id =
             Some (format_last_interaction_id (csv_last_interaction_id csvRow)),
           annual_average_employees_2020 =
             Some (or_else (csv_annual_average_employees_2020 csvRow) []),
           annual_average_employees_2021 =
             Some (or_else (csv_annual_average_employees_2021 csvRow) []),
           annual_average_employees_2022 =
             Some (or_else (csv_annual_average_employees_2022 csvRow) []),
           annual_average_employees_2023 =
             Some (or_else (csv_annual_average_employees_2023 csvRow) []),
           annual_average_employees_2024 =
             Some (or_else (csv_annual_average_employees_2024 csvRow) []),
           total_hours_worked_2020 = Some (or_else (csv_total_hours_worked_2020 csvRow) []),
           total_hours_worked_2021 = Some (or_else (csv_total_hours_worked_2021 csvRow) []),
           total_hours_worked_2022 = Some (or_else (csv_total_hours_worked_2022 csvRow) []),
           total_hours_worked_2023 = Some (or_else (csv_total_hours_worked_2023 csvRow) []),
           total_hours_worked_2024 = Some (or_else (csv_total_hours_worked_2024 csvRow) []) \<rparr>)"

text \<open>
  \<open>transformCSVToCompany\<close>. Its first statement, \<open>JSON.parse(csvRow.metrics)\<close>, stands outside
  every \<open>try\<close>: when it throws, the function throws. \<open>JSON.parse(undefined)\<close> is a
  \<open>SyntaxError\<close>.
\<close>

definition transformCSVToCompany :: "host \<Rightarrow> CompanyCSV \<Rightarrow> error + Company" where
  "transformCSVToCompany h csvRow =
     (case csv_metrics csvRow of
        None \<Rightarrow> Inl SyntaxError
      | Some text \<Rightarrow>
          (case JSON_parse_metrics h text of
             Inl e \<Rightarrow> Inl e
           | Inr metrics \<Rightarrow> Inr (company_of_metrics h csvRow metrics)))"

text \<open>\<open>results.data.map(transformCSVToCompany)\<close>: the first row that throws ends the map.\<close>

fun transform_rows :: "host \<Rightarrow> CompanyCSV list \<Rightarrow> error + Company list" where
  "transform_rows h [] = Inr []"
| "transform_rows h (r # rs) =
     (case transformCSVToCompany h r of
        Inl e \<Rightarrow> Inl e
      | Inr c \<Rightarrow> (case transform_rows h rs of Inl e \<Rightarrow> Inl e | Inr cs \<Rightarrow> Inr (c # cs)))"

subsection \<open>State of the component\<close>

definition columnConfigs :: "ColumnConfig list" where
  "columnConfigs =
     [
      \<lparr> key = Company_name, label = ''Company Name'', col_type = Definition, visible = True,
        order = 0, group = None \<rparr>,
      \<lparr> key = State, label = ''State'', col_type = Definition, visible = True,
        order = 1, group = None \<rparr>,
      \<lparr> key = Investment_grade, label = ''Investment Grade'', col_type = Metric, visible = True,
        order = 2, group = None \<rparr>,
      \<lparr> key = Est_annual_revenue, label = ''Est. Annual Rev. ($)'', col_type = Metric, visible = True,
        order = 3, group = None \<rparr>,
      \<lparr> key = Est_yoy_growth, label = ''Est. YoY Growth (%)'', col_type = Metric, visible = True,
        order = 4, group = None \<rparr>,
      \<lparr> key = Pe_backed, label = ''PE-backed (y/n)'', col_type = Metric, visible = True,
        order = 5, group = None \<rparr>,
      \<lparr> key = Can_accommodate_allocation, label = ''Can Accommodate $10M'', col_type = Metric, visible = True,
        order = 6, group = None \<rparr>,
      \<lparr> key = Last_interaction_date, label = ''Last Interaction Date'', col_type = Metric, visible = True,
        order = 7, group = Some ''Affinity'' \<rparr>,
      \<lparr> key = Last_interaction_id, label = ''Last Interaction IDs'', col_type = Metric, visible = True,
        order = 8, group = Some ''Affinity'' \<rparr>,
      \<lparr> key = Annual_average_employees_2020, label = ''2020'', col_type = Metric, visible = True,
        order = 9, group = Some ''Avg Employees (OSHA)'' \<rparr>,
      \<lparr> key = Annual_average_employees_2021, label = ''2021'', col_type = Metric, visible = True,
        order = 10, group = Some ''Avg Employees (OSHA)'' \<rparr>,
      \<lparr> key = Annual_average_employees_2022, label = ''2022'', col_type = Metric, visible = True,
        order = 11, group = Some ''Avg Employees (OSHA)'' \<rparr>,
      \<lparr> key = Annual_average_employees_2023, label = ''2023'', col_type = Metric, visible = True,
        order = 12, group = Some ''Avg Employees (OSHA)'' \<rparr>,
      \<lparr> key = Annual_average_employees_2024, label = ''2024'', col_type = Metric, visible = True,
        order = 13, group = Some ''Avg Employees (OSHA)'' \<rparr>,
      \<lparr> key = Total_hours_worked_2020, label = ''2020'', col_type = Metric, visible = True,
        order = 14, group = Some ''Total Hours Worked (OSHA)'' \<rparr>,
      \<lparr> key = Total_hours_worked_2021, label = ''2021'', col_type = Metric, visible = True,
        order = 15, group = Some ''Total Hours Worked (OSHA)'' \<rparr>,
      \<lparr> key = Total_hours_worked_2022, label = ''2022'', col_type = Metric, visible = True,
        order = 16, group = Some ''Total Hours Worked (OSHA)'' \<rparr>,
      \<lparr> key = Total_hours_worked_2023, label = ''2023'', col_type = Metric, visible = True,
        order = 17, group = Some ''Total Hours Worked (OSHA)'' \<rparr>,
      \<lparr> key = Total_hours_worked_2024, label = ''2024'', col_type = Metric, visible = True,
        order = 18, group = Some ''Total Hours Worked (OSHA)'' \<rparr>]"

datatype sort_direction = Asc | Desc

record SortStatus =
  columnAccessor :: field
  direction :: sort_direction

text \<open>The \<open>useState\<close> cells of \<open>CompanyTable\<close>. The \<open>filters\<close> object always has the 29 keys
  of \<open>Company\<close>, so it is a function on \<open>field\<close>; the empty string is "no filter".\<close>

record table_state =
  companies :: "Company list"
  loading :: bool
  sortStatus :: SortStatus
  filters :: "field \<Rightarrow> string"
  columnSettings :: "ColumnConfig list"
  verifications :: "bool overlay"
  cellEdits :: "string overlay"

text \<open>The \<open>complete\<close> callback of \<open>Papa.parse\<close>: an exception of the map leaves it before
  \<open>setCompanies\<close>; the \<open>catch\<close> of the promise then only clears \<open>loading\<close>.\<close>

definition load_complete :: "host \<Rightarrow> CompanyCSV list \<Rightarrow> table_state \<Rightarrow> table_state" where
  "load_complete h rows s =
     (case transform_rows h rows of
        Inl e \<Rightarrow> s\<lparr>loading := False\<rparr>
      | Inr transformedCompanies \<Rightarrow> s\<lparr>companies := transformedCompanies, loading := False\<rparr>)"

subsection \<open>Filter and sort: \<open>filteredAndSortedCompanies\<close>\<close>

text \<open>The callback of \<open>result.filter\<close> for one key and its non-empty filter text.\<close>

definition filter_keeps :: "field \<Rightarrow> string \<Rightarrow> Company \<Rightarrow> bool" where
  "filter_keeps k filterValue company =
     (case get company k of
        VList items \<Rightarrow>
          list_ex (\<lambda>item. str_includes (toLowerCase item) (toLowerCase filterValue)) items
      | VStr s \<Rightarrow> str_includes (toLowerCase s) (toLowerCase filterValue)
      | VUndef \<Rightarrow> False)"

text \<open>\<open>Object.entries(filters).forEach\<close>: one pass of \<open>filter\<close> per key with a non-empty text.\<close>

definition apply_filters :: "(field \<Rightarrow> string) \<Rightarrow> Company list \<Rightarrow> Company list" where
  "apply_filters fs cs =
     foldl (\<lambda>result k. if fs k \<noteq> [] then filter (filter_keeps k (fs k)) result else result)
       cs all_fields"

text \<open>\<open>Array.isArray(aVal) ? aVal.join(' ') : aVal?.toString() || ''\<close>.\<close>

definition sort_text :: "field \<Rightarrow> Company \<Rightarrow> string" where
  "sort_text k company =
     (case get company k of VList items \<Rightarrow> join '' '' items | VStr s \<Rightarrow> s | VUndef \<Rightarrow> [])"

text \<open>The comparator handed to \<open>result.sort\<close>.\<close>

definition compareFn :: "host \<Rightarrow> SortStatus \<Rightarrow> Company \<Rightarrow> Company \<Rightarrow> int" where
  "compareFn h st a b =
     (let comparison = localeCompare h (sort_text (columnAccessor st) a)
                                       (sort_text (columnAccessor st) b)
      in if direction st = Asc then comparison else - comparison)"

text \<open>\<open>Array.prototype.sort\<close> is stable; it is modelled as the stable insertion sort: an
  element goes in front of the first element it does not compare greater than.\<close>

fun insert_sorted :: "('a \<Rightarrow> 'a \<Rightarrow> int) \<Rightarrow> 'a \<Rightarrow> 'a list \<Rightarrow> 'a list" where
  "insert_sorted cmp x [] = [x]"
| "insert_sorted cmp x (y # ys) =
     (if cmp x y \<le> 0 then x # y # ys else y # insert_sorted cmp x ys)"

definition array_sort :: "('a \<Rightarrow> 'a \<Rightarrow> int) \<Rightarrow> 'a list \<Rightarrow> 'a list" where
  "array_sort cmp xs = foldr (insert_sorted cmp) xs []"

definition filteredAndSortedCompanies :: "host \<Rightarrow> table_state \<Rightarrow> Company list" where
  "filteredAndSortedCompanies h s =
     array_sort (compareFn h (sortStatus s)) (apply_filters (filters s) (companies s))"


definition toggleColumnVisibility :: "field \<Rightarrow> table_state \<Rightarrow> table_state" where
  "toggleColumnVisibility k s =
     s\<lparr>columnSettings :=
          map (\<lambda>col. if key col = k then col\<lparr>visible := \<not> visible col\<rparr> else col)
            (columnSettings s)\<rparr>"

subsection \<open>The edit and verification overlays\<close>

text \<open>\<open>overlay[companyName]?.[metricKey]\<close>.\<close>

definition lookup2 :: "'v overlay \<Rightarrow> string \<Rightarrow> string \<Rightarrow> 'v option" where
  "lookup2 ov companyName metricKey =
     (case map_of ov companyName of None \<Rightarrow> None | Some inner \<Rightarrow> map_of inner metricKey)"

text \<open>\<open>{...prev, [companyName]: {...prev[companyName], [metricKey]: v}}\<close>.\<close>

definition set_nested :: "string \<Rightarrow> string \<Rightarrow> 'v \<Rightarrow> 'v overlay \<Rightarrow> 'v overlay" where
  "set_nested companyName metricKey v prev =
     AList.update companyName
       (AList.update metricKey v (case map_of prev companyName of None \<Rightarrow> [] | Some inner \<Rightarrow> inner))
       prev"

definition handleVerificationChange :: "string \<Rightarrow> string \<Rightarrow> bool \<Rightarrow> table_state \<Rightarrow> table_state" where
  "handleVerificationChange companyName metricKey verified s =
     s\<lparr>verifications := set_nested companyName metricKey verified (verifications s)\<rparr>"

definition handleValueChange :: "string \<Rightarrow> string \<Rightarrow> string \<Rightarrow> table_state \<Rightarrow> table_state" where
  "handleValueChange companyName metricKey newValue s =
     s\<lparr>cellEdits := set_nested companyName metricKey newValue (cellEdits s)\<rparr>"

text \<open>The updater of \<open>handleRevert\<close>: delete the key from the company's object, and delete
  the company's object when no key is left in it.\<close>

definition revert_edit :: "string \<Rightarrow> string \<Rightarrow> string overlay \<Rightarrow> string overlay" where
  "revert_edit companyName metricKey prev =
     (case map_of prev companyName of
        None \<Rightarrow> prev
      | Some inner \<Rightarrow>
          (let inner' = AList.delete metricKey inner
           in if inner' = [] then AList.delete companyName prev
              else AList.update companyName inner' prev))"

definition handleRevert :: "string \<Rightarrow> string \<Rightarrow> table_state \<Rightarrow> table_state" where
  "handleRevert companyName metricKey s =
     s\<lparr>cellEdits := revert_edit companyName metricKey (cellEdits s)\<rparr>"

text \<open>The \<open>render\<close> of a metric column: \<open>originalValue\<close>, \<open>editedValue\<close>, \<open>currentValue\<close>,
  \<open>isVerified\<close>.\<close>

definition originalValue :: "Company \<Rightarrow> field \<Rightarrow> fval" where
  "originalValue company k = get company k"

definition editedValue :: "table_state \<Rightarrow> Company \<Rightarrow> field \<Rightarrow> string option" where
  "editedValue s company k = lookup2 (cellEdits s) (company_name company) (field_name k)"

definition currentValue :: "table_state \<Rightarrow> Company \<Rightarrow> field \<Rightarrow> fval" where
  "currentValue s company k =
     (case editedValue s company k of
        Some v \<Rightarrow> VStr v
      | None \<Rightarrow> originalValue company k)"

definition isVerified :: "table_state \<Rightarrow> Company \<Rightarrow> field \<Rightarrow> bool" where
  "isVerified s company k =
     (case lookup2 (verifications s) (company_name company) (field_name k) of
        Some b \<Rightarrow> b
      | None \<Rightarrow> False)"

subsection \<open>CSV export: \<open>exportToCSV\<close>\<close>

text \<open>\<open>getValue\<close>: the edit stored under the company's name and the key, else
  \<open>company[key] || ''\<close>. It is only called on string-valued keys; an array would reach the
  serializer as its string form.\<close>

definition getValue :: "string overlay \<Rightarrow> Company \<Rightarrow> field \<Rightarrow> string" where
  "getValue edits company k =
     (case lookup2 edits (company_name company) (field_name k) of
        Some edited \<Rightarrow> edited
      | None \<Rightarrow>
          (case get company k of VStr s \<Rightarrow> s | VList items \<Rightarrow> join '','' items | VUndef \<Rightarrow> []))"

definition formatCitations :: "string list \<Rightarrow> string" where
  "formatCitations cs = (if cs \<noteq> [] then join '', '' cs else [])"

text \<open>The first \<open>forEach\<close> over the contacts: group name and email by normalized position.\<close>

definition contact_position :: "Contact \<Rightarrow> string" where
  "contact_position contact = replace_spaces (toLowerCase (or_else (position contact) ''contact''))"

definition contact_name :: "Contact \<Rightarrow> string" where
  "contact_name contact =
     trim (or_else (first_name contact) [] @ '' '' @ or_else (last_name contact) [])"

definition contact_email :: "Contact \<Rightarrow> string" where
  "contact_email contact = or_else (email contact) []"

definition push_contact ::
  "(string \<times> (string \<times> string) list) list \<Rightarrow> Contact \<Rightarrow> (string \<times> (string \<times> string) list) list"
where
  "push_contact groups contact =
     (let p = contact_position contact
      in AList.update p
           ((case map_of groups p of None \<Rightarrow> [] | Some g \<Rightarrow> g)
              @ [(contact_name contact, contact_email contact)])
           groups)"

definition contactsByPosition :: "Contact list \<Rightarrow> (string \<times> (string \<times> string) list) list" where
  "contactsByPosition contacts = foldl push_contact [] contacts"

text \<open>The second \<open>forEach\<close>: the name and email columns of one position.\<close>

definition position_columns :: "string \<times> (string \<times> string) list \<Rightarrow> (string \<times> string) list" where
  "position_columns g =
     (let names = join '', '' (filter (\<lambda>n. n \<noteq> []) (map fst (snd g)));
          emails = join '', '' (filter (\<lambda>e. e \<noteq> []) (map snd (snd g)))
      in (if names \<noteq> [] then [(fst g @ ''_name'', names)] else [])
         @ (if emails \<noteq> [] then [(fst g @ ''_email'', emails)] else []))"

text \<open>Assignments \<open>obj[k] = v\<close> in sequence, as an object literal with a spread makes them.\<close>

definition assign_all :: "(string \<times> string) list \<Rightarrow> (string \<times> string) list \<Rightarrow> (string \<times> string) list" where
  "assign_all obj kvs = foldl (\<lambda>acc kv. AList.update (fst kv) (snd kv) acc) obj kvs"

definition contactData :: "host \<Rightarrow> Company \<Rightarrow> (string \<times> string) list" where
  "contactData h company =
     (case contact_info company of
        None \<Rightarrow> []
      | Some text \<Rightarrow>
          if text = [] then []
          else (case JSON_parse_contacts h text of
                  None \<Rightarrow> []
                | Some contacts \<Rightarrow>
                    assign_all [] (concat (map position_columns (contactsByPosition contacts)))))"

text \<open>The row object of one company: the fixed columns, the spread of \<open>contactData\<close>, the
  OSHA columns, assigned in the order of the object literal.\<close>

definition fixed_columns :: "string overlay \<Rightarrow> Company \<Rightarrow> (string \<times> string) list" where
  "fixed_columns edits company =
     [(''company_name'', getValue edits company Company_name),
      (''state'', getValue edits company State),
      (''investment_grade'', getValue edits company Investment_grade),
      (''investment_grade_summary'', investment_grade_summary company),
      (''investment_grade_citations'', formatCitations (investment_grade_citations company)),
      (''est_annual_revenue'', getValue edits company Est_annual_revenue),
      (''est_annual_revenue_citations'',
         formatCitations (est_annual_revenue_citations company)),
      (''est_yoy_growth'', getValue edits company Est_yoy_growth),
      (''est_yoy_growth_citations'', formatCitations (est_yoy_growth_citations company)),
      (''pe_backed'', getValue edits company Pe_backed),
      (''pe_backed_citations'', formatCitations (pe_backed_citations company)),
      (''can_accommodate_allocation'', getValue edits company Can_accommodate_allocation),
      (''can_accommodate_allocation_citations'',
         formatCitations (can_accommodate_allocation_citations company)),
      (''website'', getValue edits company Website)]"

definition osha_columns :: "string overlay \<Rightarrow> Company \<Rightarrow> (string \<times> string) list" where
  "osha_columns edits company =
     [(''osha_annual_average_employees_2020'',
         getValue edits company Annual_average_employees_2020),
      (''osha_annual_average_employees_2021'',
         getValue edits company Annual_average_employees_2021),
      (''osha_annual_average_employees_2022'',
         getValue edits company Annual_average_employees_2022),
      (''osha_annual_average_employees_2023'',
         getValue edits company Annual_average_employees_2023),
      (''osha_annual_average_employees_2024'',
         getValue edits company Annual_average_employees_2024),
      (''osha_total_hours_worked_2020'', getValue edits company Total_hours_worked_2020),
      (''osha_total_hours_worked_2021'', getValue edits company Total_hours_worked_2021),
      (''osha_total_hours_worked_2022'', getValue edits company Total_hours_worked_2022),
      (''osha_total_hours_worked_2023'', getValue edits company Total_hours_worked_2023),
      (''osha_total_hours_worked_2024'', getValue edits company Total_hours_worked_2024)]"

definition export_row :: "host \<Rightarrow> string overlay \<Rightarrow> Company \<Rightarrow> (string \<times> string) list" where
  "export_row h edits company =
     assign_all []
       (fixed_columns edits company @ contactData h company @ osha_columns edits company)"

text \<open>\<open>dataToExport\<close>, the array handed to \<open>Papa.unparse\<close>, and the text of the download.
  The serializer is no part of the repository and is a parameter.\<close>

definition dataToExport :: "host \<Rightarrow> table_state \<Rightarrow> (string \<times> string) list list" where
  "dataToExport h s = map (export_row h (cellEdits s)) (filteredAndSortedCompanies h s)"





subsection \<open>Initial state and write-through\<close>

type_synonym localStorage = "string \<rightharpoonup> string"

text \<open>The initializer of \<open>columnSettings\<close> returns \<open>columnConfigs\<close>; it does not read storage.\<close>

definition initial_columnSettings :: "localStorage \<Rightarrow> ColumnConfig list" where
  "initial_columnSettings storage = columnConfigs"

text \<open>\<open>saved ? JSON.parse(saved) : {}\<close>: \<open>null\<close> and the empty string are falsy.\<close>

definition initial_verifications :: "host \<Rightarrow> localStorage \<Rightarrow> error + bool overlay" where
  "initial_verifications h storage =
     (case storage ''companyTableVerifications'' of
        None \<Rightarrow> Inr []
      | Some savedVerifications \<Rightarrow>
          if savedVerifications = [] then Inr []
          else JSON_parse_verifications h savedVerifications)"

definition initial_cellEdits :: "host \<Rightarrow> localStorage \<Rightarrow> error + string overlay" where
  "initial_cellEdits h storage =
     (case storage ''companyTableEdits'' of
        None \<Rightarrow> Inr []
      | Some savedEdits \<Rightarrow>
          if savedEdits = [] then Inr []
          else JSON_parse_edits h savedEdits)"

definition initial_filters :: "field \<Rightarrow> string" where
  "initial_filters = (\<lambda>k. [])"

text \<open>The first render: the \<open>useState\<close> initializers in their order.\<close>

definition initial_state :: "host \<Rightarrow> localStorage \<Rightarrow> error + table_state" where
  "initial_state h storage =
     (case initial_verifications h storage of
        Inl e \<Rightarrow> Inl e
      | Inr v \<Rightarrow>
          (case initial_cellEdits h storage of
             Inl e \<Rightarrow> Inl e
           | Inr e \<Rightarrow>
               Inr \<lparr> companies = [], loading = True,
                     sortStatus = \<lparr> columnAccessor = Company_name, direction = Asc \<rparr>,
                     filters = initial_filters,
                     columnSettings = initial_columnSettings storage,
                     verifications = v, cellEdits = e \<rparr>))"

text \<open>The three \<open>useEffect\<close> hooks that write the overlays and the columns back.\<close>

definition persist :: "host \<Rightarrow> table_state \<Rightarrow> localStorage \<Rightarrow> localStorage" where
  "persist h s storage =
     storage(''companyTableColumns'' \<mapsto> JSON_stringify_columns h (columnSettings s),
             ''companyTableVerifications'' \<mapsto> JSON_stringify_verifications h (verifications s),
             ''companyTableEdits'' \<mapsto> JSON_stringify_edits h (cellEdits s))"

subsection \<open>Authentication: \<open>validateCredentials\<close>\<close>

text \<open>The build-time configuration \<open>import.meta.env\<close>.\<close>

record env =
  VITE_AUTH_MODE :: "string option"
  VITE_DEV_USERNAME :: "string option"
  VITE_DEV_PASSWORD :: "string option"
  VITE_API_BASE_URL :: "string option"

text \<open>A JSON value, as \<open>response.json()\<close> resolves to.\<close>

datatype json =
    JNull | JBool bool | JNum int | JStr string | JArr "json list"
  | JObj "(string \<times> json) list"

text \<open>A request made with \<open>fetch\<close>, and what comes back: the promise rejects, or resolves
  to a response with a status and a body (\<open>None\<close>: the body is no JSON, \<open>response.json()\<close>
  rejects). \<open>response.ok\<close> is true for the statuses 200 to 299.\<close>

record request =
  url :: string
  body_username :: string
  body_password :: string

datatype response = Rejected | Response nat "json option"

definition ok :: "nat \<Rightarrow> bool" where
  "ok status = (200 \<le> status \<and> status \<le> 299)"

text \<open>\<open>result.valid === true\<close>: reading a property of \<open>null\<close> throws; any other value that
  is no object has no such property.\<close>

definition valid_is_true :: "json \<Rightarrow> error + bool" where
  "valid_is_true result =
     (case result of
        JNull \<Rightarrow> Inl TypeError
      | JObj members \<Rightarrow> Inr (map_of members ''valid'' = Some (JBool True))
      | _ \<Rightarrow> Inr False)"

text \<open>The body of the \<open>try\<close> block, with the requests it made.\<close>

definition validateCredentials_try ::
  "env \<Rightarrow> (request \<Rightarrow> response) \<Rightarrow> string \<Rightarrow> string \<Rightarrow> (error + bool) \<times> request list" where
  "validateCredentials_try e fetch username password =
     (let authMode = or_else (VITE_AUTH_MODE e) ''local''
      in if authMode = ''local'' then
           (let devUsername = or_else (VITE_DEV_USERNAME e) ''admin'';
                devPassword = or_else (VITE_DEV_PASSWORD e) ''password123''
            in (Inr (username = devUsername \<and> password = devPassword), []))
         else if authMode = ''api'' then
           (let apiBaseUrl = or_else (VITE_API_BASE_URL e) []
            in if apiBaseUrl = [] then
                 (Inl (Error ''VITE_API_BASE_URL not configured for API mode''), [])
               else
                 (let req = \<lparr> url = apiBaseUrl @ ''/auth'', body_username = username,
                               body_password = password \<rparr>
                  in (case fetch req of
                        Rejected \<Rightarrow> (Inl TypeError, [req])
                      | Response status body \<Rightarrow>
                          if \<not> ok status then (Inr False, [req])
                          else (case body of
                                  None \<Rightarrow> (Inl SyntaxError, [req])
                                | Some result \<Rightarrow> (valid_is_true result, [req])))))
         else (Inl (Error (''Unknown auth mode: '' @ authMode)), []))"

text \<open>\<open>validateCredentials\<close>: the \<open>catch\<close> turns every exception into \<open>false\<close>.\<close>

definition validateCredentials ::
  "env \<Rightarrow> (request \<Rightarrow> response) \<Rightarrow> string \<Rightarrow> string \<Rightarrow> (error + bool) \<times> request list" where
  "validateCredentials e fetch username password =
     (case validateCredentials_try e fetch username password of
        (Inl err, calls) \<Rightarrow> (Inr False, calls)
      | (Inr b, calls) \<Rightarrow> (Inr b, calls))"

subsection \<open>Names used in the statements\<close>

text \<open>The metric names that \<open>transformCSVToCompany\<close> looks up in \<open>metricMap\<close>.\<close>

definition expected_metric_names :: "string list" where
  "expected_metric_names =
     [''est_annual_revenue'', ''est_yoy_growth'', ''pe_backed'',
      ''can_accommodate_allocation'', ''reputation'']"

definition has_metric :: "MetricData list \<Rightarrow> string \<Rightarrow> bool" where
  "has_metric metrics name = list_ex (\<lambda>d. metric_name d = name) metrics"



text \<open>A comparison function is consistent on a set when it orders it: the sign of
  \<open>cmp a b\<close> is opposite to that of \<open>cmp b a\<close>, and "less" is transitive. It has no ties
  when two different elements never compare equal.\<close>

definition consistent_on :: "'a set \<Rightarrow> ('a \<Rightarrow> 'a \<Rightarrow> int) \<Rightarrow> bool" where
  "consistent_on S cmp \<longleftrightarrow>
     (\<forall>a \<in> S. \<forall>b \<in> S. (cmp a b < 0) = (0 < cmp b a))
     \<and> (\<forall>a \<in> S. \<forall>b \<in> S. \<forall>c \<in> S. cmp a b < 0 \<and> cmp b c < 0 \<longrightarrow> cmp a c < 0)"

definition no_ties_on :: "'a set \<Rightarrow> ('a \<Rightarrow> 'a \<Rightarrow> int) \<Rightarrow> bool" where
  "no_ties_on S cmp \<longleftrightarrow> (\<forall>a \<in> S. \<forall>b \<in> S. a \<noteq> b \<longrightarrow> cmp a b \<noteq> 0)"



subsection \<open>Example data\<close>

text \<open>A host for the examples. Its \<open>JSON.parse\<close> is given only on the texts the examples
  use, where it agrees with the real one; its \<open>JSON.stringify\<close> writes strings that need no
  escaping; its collation is the order of the character codes.\<close>

definition json_quote :: "string \<Rightarrow> string" where
  "json_quote s = CHR 0x22 # s @ [CHR 0x22]"

definition json_object :: "(string \<times> string) list \<Rightarrow> string" where
  "json_object members =
     ''{'' @ join '','' (map (\<lambda>m. json_quote (fst m) @ '':'' @ snd m) members) @ ''}''"

definition stringify_overlay :: "('v \<Rightarrow> string) \<Rightarrow> 'v overlay \<Rightarrow> string" where
  "stringify_overlay f ov =
     json_object (map (\<lambda>c. (fst c, json_object (map (\<lambda>m. (fst m, f (snd m))) (snd c)))) ov)"

fun decimal :: "nat \<Rightarrow> string" where
  "decimal n = (if n < 10 then [char_of (48 + n)] else decimal (n div 10) @ [char_of (48 + n mod 10)])"

declare decimal.simps [simp del]

definition stringify_column :: "ColumnConfig \<Rightarrow> string" where
  "stringify_column col =
     json_object
       ([(''key'', json_quote (field_name (key col))),
         (''label'', json_quote (label col)),
         (''type'', json_quote (case col_type col of Definition \<Rightarrow> ''definition''
                                  | Metric \<Rightarrow> ''metric'')),
         (''visible'', if visible col then ''true'' else ''false''),
         (''order'', decimal (order col))]
        @ (case group col of None \<Rightarrow> [] | Some g \<Rightarrow> [(''group'', json_quote g)]))"

definition stringify_columns :: "ColumnConfig list \<Rightarrow> string" where
  "stringify_columns cols = ''['' @ join '','' (map stringify_column cols) @ '']''"

definition code_unit_compare :: "string \<Rightarrow> string \<Rightarrow> int" where
  "code_unit_compare a b =
     (if a = b then 0
      else if lexordp (\<lambda>x y. (of_char x :: nat) < of_char y) a b then - 1 else 1)"

definition example_edits :: "string overlay" where
  "example_edits = [(''Acme Roofing'', [(''pe_backed'', ''Yes'')])]"

definition example_verifications :: "bool overlay" where
  "example_verifications = [(''Acme Roofing'', [(''est_annual_revenue'', True)])]"

definition example_contact :: Contact where
  "example_contact =
     \<lparr> position = Some ''Project  Manager'', first_name = Some ''Pat'',
       last_name = Some ''Lee'', email = Some ''pat@zenith.example'' \<rparr>"

definition example_contact_text :: string where
  "example_contact_text =
     ''['' @ json_object
       [(''position'', json_quote ''Project  Manager''), (''first_name'', json_quote ''Pat''),
        (''last_name'', json_quote ''Lee''), (''email'', json_quote ''pat@zenith.example'')]
     @ '']''"

definition example_host :: host where
  "example_host =
     \<lparr> JSON_parse_metrics = (\<lambda>s. if s = ''[]'' then Inr [] else Inl SyntaxError),
       JSON_parse_grade = (\<lambda>s. None),
       JSON_parse_contacts =
         (\<lambda>s. if s = ''[]'' then Some []
              else if s = example_contact_text then Some [example_contact]
              else None),
       JSON_parse_verifications =
         (\<lambda>s. if s = ''{}'' then Inr []
              else if s = stringify_overlay (\<lambda>b. if b then ''true'' else ''false'')
                            example_verifications
              then Inr example_verifications
              else Inl SyntaxError),
       JSON_parse_edits =
         (\<lambda>s. if s = ''{}'' then Inr []
              else if s = stringify_overlay json_quote example_edits then Inr example_edits
              else Inl SyntaxError),
       JSON_stringify_columns = stringify_columns,
       JSON_stringify_verifications = stringify_overlay (\<lambda>b. if b then ''true'' else ''false''),
       JSON_stringify_edits = stringify_overlay json_quote,
       toLocaleDateString =
         (\<lambda>s. if s = ''2024-03-05T12:00:00'' then Some ''Mar 5, 2024'' else None),
       localeCompare = code_unit_compare \<rparr>"

definition example_row :: CompanyCSV where
  "example_row =
     \<lparr> csv_company_name = ''Acme Roofing'', csv_state = ''TX'', csv_investment_grade = ''B'',
       csv_metrics = Some ''[]'',
       csv_website = Some ''https://acme.example'', csv_contact_info = None,
       csv_last_interaction_date = Some ''2024-03-05T12:00:00'',
       csv_last_interaction_id = None,
       csv_annual_average_employees_2020 = Some ''12'',
       csv_annual_average_employees_2021 = None,
       csv_annual_average_employees_2022 = None,
       csv_annual_average_employees_2023 = None,
       csv_annual_average_employees_2024 = None,
       csv_total_hours_worked_2020 = None,
       csv_total_hours_worked_2021 = None,
       csv_total_hours_worked_2022 = None,
       csv_total_hours_worked_2023 = None,
       csv_total_hours_worked_2024 = None \<rparr>"

definition example_metrics :: "MetricData list" where
  "example_metrics =
     [\<lparr> metric_name = ''headcount'', metric = Some (MStr ''40''), details = [],
        citations = None \<rparr>,
      \<lparr> metric_name = ''est_annual_revenue'', metric = Some (MStr ''$5M''), details = [],
        citations = Some [''http://a''] \<rparr>]"

definition acme :: Company where
  "acme =
     \<lparr> company_name = ''Acme Roofing'', state = ''TX'',
       investment_grade = ''B'', investment_grade_summary = ''ok'',
       investment_grade_citations = [],
       est_annual_revenue = ''$5M'', est_annual_revenue_citations = [''http://a''],
       est_yoy_growth = ''Unknown'', est_yoy_growth_citations = [],
       pe_backed = ''No'', pe_backed_citations = [],
       can_accommodate_allocation = ''No'', can_accommodate_allocation_citations = [],
       good_reputation = ''Unknown'', good_reputation_citations = [],
       website = Some ''https://acme.example'', contact_info = Some [],
       last_interaction_date = Some ''Mar 5, 2024'', last_interaction_id = Some [],
       annual_average_employees_2020 = Some ''12'', annual_average_employees_2021 = Some [],
       annual_average_employees_2022 = Some [], annual_average_employees_2023 = Some [],
       annual_average_employees_2024 = Some [],
       total_hours_worked_2020 = Some [], total_hours_worked_2021 = Some [],
       total_hours_worked_2022 = Some [], total_hours_worked_2023 = Some [],
       total_hours_worked_2024 = Some [] \<rparr>"

definition zenith :: Company where
  "zenith = acme\<lparr> company_name := ''Zenith Roofing'', state := ''OK'',
                   est_annual_revenue_citations := [''http://z.example/Report''],
                   contact_info := Some example_contact_text \<rparr>"

definition summit :: Company where
  "summit = acme\<lparr> company_name := ''Summit Roofing'', state := ''CO'' \<rparr>"

definition example_state :: table_state where
  "example_state =
     \<lparr> companies = [zenith, acme], loading = False,
       sortStatus = \<lparr> columnAccessor = Company_name, direction = Asc \<rparr>,
       filters = initial_filters,
       columnSettings = columnConfigs,
       verifications = example_verifications,
       cellEdits = example_edits \<rparr>"


definition local_env :: env where
  "local_env = \<lparr> VITE_AUTH_MODE = None, VITE_DEV_USERNAME = None, VITE_DEV_PASSWORD = None,
                 VITE_API_BASE_URL = None \<rparr>"

definition api_env :: env where
  "api_env = \<lparr> VITE_AUTH_MODE = Some ''api'', VITE_DEV_USERNAME = None,
               VITE_DEV_PASSWORD = None, VITE_API_BASE_URL = Some ''https://api.example'' \<rparr>"

definition fetch_down :: "request \<Rightarrow> response" where
  "fetch_down req = Rejected"

definition fetch_status_500 :: "request \<Rightarrow> response" where
  "fetch_status_500 req = Response 500 (Some (JObj [(''valid'', JBool True)]))"

definition fetch_accepts :: "request \<Rightarrow> response" where
  "fetch_accepts req =
     Response 200 (Some (JObj [(''valid'', JBool True),
                                (''message'', JStr ''Authentication successful'')]))"

section \<open>Properties\<close>

subsection \<open>Authentication\<close>

lemma validateCredentials_total: "\<exists>b. fst (validateCredentials e fetch u p) = Inr b"
  unfolding validateCredentials_def
  by (cases "validateCredentials_try e fetch u p"; rename_tac r calls; case_tac r) auto

text \<open>
  C5. \<open>validateCredentials\<close> fails closed. In local mode the result is true exactly when the
  pair equals the two configured strings, and no request is made. In API mode a missing
  base URL gives false without a request; otherwise exactly one request is made, a
  rejected \<open>fetch\<close>, a status outside 200-299 and a body that is no JSON give false, and
  the result is true only for a 2xx response whose JSON object has \<open>valid\<close> equal to \<open>true\<close>.
  In every mode the promise resolves to a boolean: no exception leaves the function.
\<close>

theorem validateCredentials_fails_closed:
  "(or_else (VITE_AUTH_MODE e) ''local'' = ''local'' \<longrightarrow>
      validateCredentials e fetch u p =
        (Inr (u = or_else (VITE_DEV_USERNAME e) ''admin''
              \<and> p = or_else (VITE_DEV_PASSWORD e) ''password123''), []))
   \<and> (VITE_AUTH_MODE e = Some ''api'' \<longrightarrow>
        (or_else (VITE_API_BASE_URL e) [] = [] \<longrightarrow>
           validateCredentials e fetch u p = (Inr False, []))
      \<and> (or_else (VITE_API_BASE_URL e) [] \<noteq> [] \<longrightarrow>
           (let req = \<lparr> url = or_else (VITE_API_BASE_URL e) [] @ ''/auth'',
                         body_username = u, body_password = p \<rparr>
            in snd (validateCredentials e fetch u p) = [req]
               \<and> (fetch req = Rejected \<longrightarrow> fst (validateCredentials e fetch u p) = Inr False)
               \<and> (\<forall>status body. fetch req = Response status body \<and> \<not> ok status \<longrightarrow>
                     fst (validateCredentials e fetch u p) = Inr False)
               \<and> (\<forall>status. fetch req = Response status None \<longrightarrow>
                     fst (validateCredentials e fetch u p) = Inr False)
               \<and> (fst (validateCredentials e fetch u p) = Inr True \<longleftrightarrow>
                    (\<exists>status members. fetch req = Response status (Some (JObj members))
                        \<and> ok status \<and> map_of members ''valid'' = Some (JBool True))))))
   \<and> (\<exists>b. fst (validateCredentials e fetch u p) = Inr b)"
proof (intro conjI impI)
  assume "or_else (VITE_AUTH_MODE e) ''local'' = ''local''"
  then show "validateCredentials e fetch u p =
        (Inr (u = or_else (VITE_DEV_USERNAME e) ''admin''
              \<and> p = or_else (VITE_DEV_PASSWORD e) ''password123''), [])"
    by (simp add: validateCredentials_def validateCredentials_try_def)
next
  assume "VITE_AUTH_MODE e = Some ''api''" "or_else (VITE_API_BASE_URL e) [] = []"
  then show "validateCredentials e fetch u p = (Inr False, [])"
    by (simp add: validateCredentials_def validateCredentials_try_def or_else_def)
next
  assume "VITE_AUTH_MODE e = Some ''api''" "or_else (VITE_API_BASE_URL e) [] \<noteq> []"
  then show "let req = \<lparr> url = or_else (VITE_API_BASE_URL e) [] @ ''/auth'',
                         body_username = u, body_password = p \<rparr>
            in snd (validateCredentials e fetch u p) = [req]
               \<and> (fetch req = Rejected \<longrightarrow> fst (validateCredentials e fetch u p) = Inr False)
               \<and> (\<forall>status body. fetch req = Response status body \<and> \<not> ok status \<longrightarrow>
                     fst (validateCredentials e fetch u p) = Inr False)
               \<and> (\<forall>status. fetch req = Response status None \<longrightarrow>
                     fst (validateCredentials e fetch u p) = Inr False)
               \<and> (fst (validateCredentials e fetch u p) = Inr True \<longleftrightarrow>
                    (\<exists>status members. fetch req = Response status (Some (JObj members))
                        \<and> ok status \<and> map_of members ''valid'' = Some (JBool True)))"
    by (simp add: validateCredentials_def validateCredentials_try_def or_else_def Let_def
          valid_is_true_def split: response.splits option.splits json.splits)
next
  show "\<exists>b. fst (validateCredentials e fetch u p) = Inr b"
    by (rule validateCredentials_total)
qed

theorem validateCredentials_fails_closed_witness:
  "validateCredentials local_env fetch_down ''admin'' ''password123'' = (Inr True, [])
   \<and> validateCredentials local_env fetch_down ''admin'' ''guess'' = (Inr False, [])
   \<and> validateCredentials (api_env\<lparr>VITE_API_BASE_URL := None\<rparr>) fetch_accepts ''admin'' ''pw''
       = (Inr False, [])
   \<and> fst (validateCredentials api_env fetch_down ''admin'' ''pw'') = Inr False
   \<and> fst (validateCredentials api_env fetch_status_500 ''admin'' ''pw'') = Inr False
   \<and> fst (validateCredentials api_env fetch_accepts ''admin'' ''pw'') = Inr True
   \<and> snd (validateCredentials api_env fetch_accepts ''admin'' ''pw'')
       = [\<lparr> url = ''https://api.example/auth'', body_username = ''admin'',
             body_password = ''pw'' \<rparr>]"
proof -
  have 1: "validateCredentials local_env fetch_down ''admin'' ''password123'' = (Inr True, [])"
    using validateCredentials_fails_closed [of local_env fetch_down "''admin''" "''password123''"]
    by (simp add: local_env_def or_else_def)
  have 2: "validateCredentials local_env fetch_down ''admin'' ''guess'' = (Inr False, [])"
    using validateCredentials_fails_closed [of local_env fetch_down "''admin''" "''guess''"]
    by (simp add: local_env_def or_else_def)
  have 3: "validateCredentials (api_env\<lparr>VITE_API_BASE_URL := None\<rparr>) fetch_accepts ''admin'' ''pw''
             = (Inr False, [])"
    using validateCredentials_fails_closed
            [of "api_env\<lparr>VITE_API_BASE_URL := None\<rparr>" fetch_accepts "''admin''" "''pw''"]
    by (simp add: api_env_def or_else_def)
  have 4: "fst (validateCredentials api_env fetch_down ''admin'' ''pw'') = Inr False"
    using validateCredentials_fails_closed [of api_env fetch_down "''admin''" "''pw''"]
    by (simp add: api_env_def or_else_def fetch_down_def Let_def)
  have 5: "fst (validateCredentials api_env fetch_status_500 ''admin'' ''pw'') = Inr False"
    using validateCredentials_fails_closed [of api_env fetch_status_500 "''admin''" "''pw''"]
    by (simp add: api_env_def or_else_def fetch_status_500_def Let_def ok_def)
  have 6: "fst (validateCredentials api_env fetch_accepts ''admin'' ''pw'') = Inr True
           \<and> snd (validateCredentials api_env fetch_accepts ''admin'' ''pw'')
               = [\<lparr> url = ''https://api.example/auth'', body_username = ''admin'',
                     body_password = ''pw'' \<rparr>]"
    using validateCredentials_fails_closed [of api_env fetch_accepts "''admin''" "''pw''"]
    by (simp add: api_env_def or_else_def fetch_accepts_def Let_def ok_def)
  from 1 2 3 4 5 6 show ?thesis by blast
qed

subsection \<open>CSV ingestion\<close>

lemma transform_rows_fails:
  "r \<in> set rows \<Longrightarrow> transformCSVToCompany h r = Inl e \<Longrightarrow> \<exists>e'. transform_rows h rows = Inl e'"
  by (induction rows) (auto split: sum.splits)

text \<open>
  C1. The claim is that a row whose \<open>metrics\<close> column is missing or is no JSON does not
  make the transform throw. The code does the opposite: for such a row
  \<open>transformCSVToCompany\<close> throws, and a load that contains the row sets no records at all.
\<close>

theorem transformCSVToCompany_throws_on_bad_metrics:
  assumes "csv_metrics row = None
           \<or> (\<exists>t e. csv_metrics row = Some t \<and> JSON_parse_metrics h t = Inl e)"
  shows "(\<exists>e. transformCSVToCompany h row = Inl e)
         \<and> (row \<in> set rows \<longrightarrow> companies (load_complete h rows s) = companies s)"
proof -
  from assms have t: "\<exists>e. transformCSVToCompany h row = Inl e"
    by (auto simp: transformCSVToCompany_def)
  then obtain e where e: "transformCSVToCompany h row = Inl e" ..
  have "row \<in> set rows \<longrightarrow> companies (load_complete h rows s) = companies s"
  proof
    assume "row \<in> set rows"
    from transform_rows_fails [OF this e] obtain e' where "transform_rows h rows = Inl e'" ..
    then show "companies (load_complete h rows s) = companies s"
      by (simp add: load_complete_def)
  qed
  with t show ?thesis by blast
qed

theorem transformCSVToCompany_throws_on_bad_metrics_witness:
  "csv_metrics (example_row\<lparr>csv_metrics := Some ''not json''\<rparr>) = Some ''not json''
   \<and> JSON_parse_metrics example_host ''not json'' = Inl SyntaxError
   \<and> (\<exists>e. transformCSVToCompany example_host (example_row\<lparr>csv_metrics := Some ''not json''\<rparr>)
            = Inl e)
   \<and> companies (load_complete example_host
                   [example_row, example_row\<lparr>csv_metrics := Some ''not json''\<rparr>]
                   (example_state\<lparr>companies := []\<rparr>)) = []"
  using transformCSVToCompany_throws_on_bad_metrics
          [of "example_row\<lparr>csv_metrics := Some ''not json''\<rparr>" example_host
              "[example_row, example_row\<lparr>csv_metrics := Some ''not json''\<rparr>]"
              "example_state\<lparr>companies := []\<rparr>"]
  by (simp add: example_host_def)

text \<open>
  C8. The claim is that a \<open>last_interaction_date\<close> that fails to parse is kept verbatim.
  The code does not keep it: whenever the transform returns a record, a non-empty date
  text that the \<open>Date\<close> constructor cannot read becomes the text \<open>Invalid Date\<close>; a text it
  can read becomes its short form.
\<close>

theorem unparsable_date_becomes_Invalid_Date:
  assumes "transformCSVToCompany h row = Inr c"
      and "csv_last_interaction_date row = Some s" and "s \<noteq> []"
  shows "(toLocaleDateString h s = None \<longrightarrow> last_interaction_date c = Some ''Invalid Date'')
         \<and> (\<forall>short. toLocaleDateString h s = Some short \<longrightarrow> last_interaction_date c = Some short)"
  using assms
  by (auto simp: transformCSVToCompany_def company_of_metrics_def Let_def
        format_last_interaction_date_def split: option.splits sum.splits)

theorem unparsable_date_becomes_Invalid_Date_witness:
  "transformCSVToCompany example_host (example_row\<lparr>csv_last_interaction_date := Some ''last week''\<rparr>)
     = Inr (company_of_metrics example_host
              (example_row\<lparr>csv_last_interaction_date := Some ''last week''\<rparr>) [])
   \<and> toLocaleDateString example_host ''last week'' = None
   \<and> last_interaction_date
       (company_of_metrics example_host
          (example_row\<lparr>csv_last_interaction_date := Some ''last week''\<rparr>) [])
     = Some ''Invalid Date''
   \<and> last_interaction_date
       (company_of_metrics example_host
          (example_row\<lparr>csv_last_interaction_date := Some ''last week''\<rparr>) [])
     \<noteq> Some ''last week''"
proof -
  let ?row = "example_row\<lparr>csv_last_interaction_date := Some ''last week''\<rparr>"
  have t: "transformCSVToCompany example_host ?row
             = Inr (company_of_metrics example_host ?row [])"
    by (simp add: transformCSVToCompany_def example_host_def example_row_def)
  have n: "toLocaleDateString example_host ''last week'' = None"
    by (simp add: example_host_def)
  have d: "csv_last_interaction_date ?row = Some ''last week''" by simp
  from unparsable_date_becomes_Invalid_Date [OF t d] n
  have "last_interaction_date (company_of_metrics example_host ?row []) = Some ''Invalid Date''"
    by simp
  with t n show ?thesis by simp
qed

lemma metricMap_snoc: "metricMap (ms @ [d]) = (metricMap ms)(metric_name d \<mapsto> d)"
  by (simp add: metricMap_def)

lemma metricMap_absent: "\<not> has_metric ms name \<Longrightarrow> metricMap ms name = None"
  by (induction ms rule: rev_induct) (auto simp: metricMap_snoc has_metric_def metricMap_def)

lemma metricMap_filter:
  "P name \<Longrightarrow> metricMap (filter (\<lambda>d. P (metric_name d)) ms) name = metricMap ms name"
  by (induction ms rule: rev_induct) (auto simp: metricMap_snoc metricMap_def)

lemma company_of_metrics_cong:
  assumes "\<forall>n \<in> set expected_metric_names. metricMap ms1 n = metricMap ms2 n"
  shows "company_of_metrics h row ms1 = company_of_metrics h row ms2"
  using assms
  by (simp add: company_of_metrics_def Let_def expected_metric_names_def
        metric_or_unknown_def metric_yes_no_def metric_citations_def)

lemma company_of_metrics_ignores_unknown:
  "company_of_metrics h row (filter (\<lambda>d. metric_name d \<in> set expected_metric_names) ms)
     = company_of_metrics h row ms"
proof (rule company_of_metrics_cong, rule ballI)
  fix n assume "n \<in> set expected_metric_names"
  then show "metricMap (filter (\<lambda>d. metric_name d \<in> set expected_metric_names) ms) n
               = metricMap ms n"
    by (rule metricMap_filter [where P = "\<lambda>n. n \<in> set expected_metric_names"])
qed

text \<open>
  C6, as stated, fails: with no \<open>pe_backed\<close> entry in the metrics list the field
  \<open>pe_backed\<close> of the record is not \<open>Unknown\<close>.
\<close>

theorem absent_pe_backed_is_not_Unknown:
  "\<not> has_metric example_metrics ''pe_backed''
   \<and> pe_backed (company_of_metrics example_host example_row example_metrics) \<noteq> ''Unknown''"
  by (simp add: has_metric_def example_metrics_def company_of_metrics_def Let_def
        metric_yes_no_def metricMap_def)

text \<open>
  C6, amended. For every parsed metrics list: dropping the entries whose names are not
  among the names the transform looks up (\<open>est_annual_revenue\<close>, \<open>est_yoy_growth\<close>,
  \<open>pe_backed\<close>, \<open>can_accommodate_allocation\<close>, \<open>reputation\<close>) changes nothing in the
  record; when \<open>est_annual_revenue\<close>, \<open>est_yoy_growth\<close> or \<open>reputation\<close> is absent the field
  is \<open>Unknown\<close>; when \<open>pe_backed\<close> or \<open>can_accommodate_allocation\<close> is absent the field is
  \<open>No\<close>; and these two fields are always \<open>Yes\<close> or \<open>No\<close>.
\<close>

theorem metric_lookups:
  "company_of_metrics h row (filter (\<lambda>d. metric_name d \<in> set expected_metric_names) metrics)
     = company_of_metrics h row metrics
   \<and> (\<not> has_metric metrics ''est_annual_revenue'' \<longrightarrow>
        est_annual_revenue (company_of_metrics h row metrics) = ''Unknown'')
   \<and> (\<not> has_metric metrics ''est_yoy_growth'' \<longrightarrow>
        est_yoy_growth (company_of_metrics h row metrics) = ''Unknown'')
   \<and> (\<not> has_metric metrics ''reputation'' \<longrightarrow>
        good_reputation (company_of_metrics h row metrics) = ''Unknown'')
   \<and> (\<not> has_metric metrics ''pe_backed'' \<longrightarrow>
        pe_backed (company_of_metrics h row metrics) = ''No'')
   \<and> (\<not> has_metric metrics ''can_accommodate_allocation'' \<longrightarrow>
        can_accommodate_allocation (company_of_metrics h row metrics) = ''No'')
   \<and> (pe_backed (company_of_metrics h row metrics) = ''Yes''
        \<or> pe_backed (company_of_metrics h row metrics) = ''No'')
   \<and> (can_accommodate_allocation (company_of_metrics h row metrics) = ''Yes''
        \<or> can_accommodate_allocation (company_of_metrics h row metrics) = ''No'')"
  apply (intro conjI impI)
         apply (rule company_of_metrics_ignores_unknown)
  by (simp_all add: company_of_metrics_def Let_def metricMap_absent metric_or_unknown_def
        metric_yes_no_def or_else_def)

theorem metric_lookups_witness:
  "\<not> has_metric example_metrics ''est_yoy_growth''
   \<and> est_yoy_growth (company_of_metrics example_host example_row example_metrics) = ''Unknown''
   \<and> \<not> has_metric example_metrics ''reputation''
   \<and> good_reputation (company_of_metrics example_host example_row example_metrics) = ''Unknown''
   \<and> \<not> has_metric example_metrics ''pe_backed''
   \<and> pe_backed (company_of_metrics example_host example_row example_metrics) = ''No''
   \<and> \<not> has_metric example_metrics ''can_accommodate_allocation''
   \<and> can_accommodate_allocation (company_of_metrics example_host example_row example_metrics)
       = ''No''
   \<and> company_of_metrics example_host example_row
       (filter (\<lambda>d. metric_name d \<in> set expected_metric_names) example_metrics)
     = company_of_metrics example_host example_row example_metrics"
  using metric_lookups [of example_host example_row example_metrics]
  by (simp add: has_metric_def example_metrics_def)

subsection \<open>Initial state\<close>

text \<open>
  C7, as stated, fails for the column list: after the State column was hidden and the
  column settings were written to storage, the blob is there, and the next start
  still begins with the default list, not with the list that was written.
\<close>

theorem columnSettings_not_restored:
  "persist example_host (toggleColumnVisibility State example_state) Map.empty
     ''companyTableColumns''
     = Some (JSON_stringify_columns example_host
               (columnSettings (toggleColumnVisibility State example_state)))
   \<and> initial_columnSettings
       (persist example_host (toggleColumnVisibility State example_state) Map.empty)
     \<noteq> columnSettings (toggleColumnVisibility State example_state)"
  by (simp add: persist_def initial_columnSettings_def toggleColumnVisibility_def
        example_state_def columnConfigs_def)

text \<open>
  C7, amended. At startup the verification map and the override map are each read from
  their local-storage blob when one is present and not empty, and are empty when it is
  absent; the column list always starts as the built-in \<open>columnConfigs\<close>, whatever is
  stored. Hence a state written by \<open>persist\<close> starts again with the same two maps,
  whenever \<open>JSON.parse\<close> reads back what \<open>JSON.stringify\<close> wrote; and loading the record
  set changes none of the three.
\<close>

theorem overlays_restored_at_startup:
  "initial_columnSettings storage = columnConfigs
   \<and> (storage ''companyTableVerifications'' = None \<longrightarrow> initial_verifications h storage = Inr [])
   \<and> (\<forall>blob. storage ''companyTableVerifications'' = Some blob \<and> blob \<noteq> [] \<longrightarrow>
         initial_verifications h storage = JSON_parse_verifications h blob)
   \<and> (storage ''companyTableEdits'' = None \<longrightarrow> initial_cellEdits h storage = Inr [])
   \<and> (\<forall>blob. storage ''companyTableEdits'' = Some blob \<and> blob \<noteq> [] \<longrightarrow>
         initial_cellEdits h storage = JSON_parse_edits h blob)
   \<and> (JSON_stringify_verifications h (verifications s) \<noteq> []
        \<and> JSON_parse_verifications h (JSON_stringify_verifications h (verifications s))
            = Inr (verifications s)
        \<and> JSON_stringify_edits h (cellEdits s) \<noteq> []
        \<and> JSON_parse_edits h (JSON_stringify_edits h (cellEdits s)) = Inr (cellEdits s)
      \<longrightarrow> (\<exists>s'. initial_state h (persist h s storage) = Inr s'
                \<and> verifications s' = verifications s \<and> cellEdits s' = cellEdits s
                \<and> columnSettings s' = columnConfigs))
   \<and> verifications (load_complete h rows s) = verifications s
   \<and> cellEdits (load_complete h rows s) = cellEdits s
   \<and> columnSettings (load_complete h rows s) = columnSettings s"
  by (auto simp: initial_columnSettings_def initial_verifications_def initial_cellEdits_def
        initial_state_def persist_def load_complete_def split: sum.splits)

lemma example_blobs:
  "JSON_stringify_verifications example_host example_verifications
     = ''{\"Acme Roofing\":{\"est_annual_revenue\":true}}''"
  "JSON_stringify_edits example_host example_edits
     = ''{\"Acme Roofing\":{\"pe_backed\":\"Yes\"}}''"
  by (simp_all add: example_host_def example_verifications_def example_edits_def
        stringify_overlay_def json_object_def json_quote_def)

theorem overlays_restored_at_startup_witness:
  "JSON_stringify_verifications example_host (verifications example_state) \<noteq> []
   \<and> JSON_parse_verifications example_host
        (JSON_stringify_verifications example_host (verifications example_state))
       = Inr (verifications example_state)
   \<and> JSON_stringify_edits example_host (cellEdits example_state) \<noteq> []
   \<and> JSON_parse_edits example_host (JSON_stringify_edits example_host (cellEdits example_state))
       = Inr (cellEdits example_state)
   \<and> (\<exists>s'. initial_state example_host (persist example_host example_state Map.empty) = Inr s'
          \<and> verifications s' = example_verifications \<and> cellEdits s' = example_edits
          \<and> columnSettings s' = columnConfigs)
   \<and> initial_verifications example_host Map.empty = Inr []
   \<and> initial_cellEdits example_host Map.empty = Inr []"
proof -
  have v: "verifications example_state = example_verifications"
    and e: "cellEdits example_state = example_edits"
    by (simp_all add: example_state_def)
  have 1: "JSON_stringify_verifications example_host (verifications example_state) \<noteq> []"
    by (simp add: v example_blobs)
  have 2: "JSON_parse_verifications example_host
             (JSON_stringify_verifications example_host (verifications example_state))
           = Inr (verifications example_state)"
    unfolding v example_blobs(1)
    by (simp add: example_host_def example_blobs(1) [unfolded example_host_def, simplified])
  have 3: "JSON_stringify_edits example_host (cellEdits example_state) \<noteq> []"
    by (simp add: e example_blobs)
  have 4: "JSON_parse_edits example_host
             (JSON_stringify_edits example_host (cellEdits example_state))
           = Inr (cellEdits example_state)"
    unfolding e example_blobs(2)
    by (simp add: example_host_def example_blobs(2) [unfolded example_host_def, simplified])
  note inst = overlays_restored_at_startup [of "Map.empty" example_host example_state "[]"]
  from inst 1 2 3 4 v e show ?thesis
    by simp
qed

subsection \<open>Filter and sort do not read the overlay\<close>

text \<open>
  C10. The visible sequence is computed from the source records, the filters and the sort
  state alone: replacing the override map by any other, and in particular storing or
  reverting an override, leaves \<open>filteredAndSortedCompanies\<close> unchanged, and the exported
  rows are the rows of that same sequence, in its order.
\<close>

theorem visible_sequence_ignores_overrides:
  "filteredAndSortedCompanies h (s\<lparr>cellEdits := edits\<rparr>) = filteredAndSortedCompanies h s
   \<and> filteredAndSortedCompanies h (handleValueChange c k v s) = filteredAndSortedCompanies h s
   \<and> filteredAndSortedCompanies h (handleRevert c k s) = filteredAndSortedCompanies h s
   \<and> dataToExport h (s\<lparr>cellEdits := edits\<rparr>)
       = map (export_row h edits) (filteredAndSortedCompanies h s)
   \<and> length (dataToExport h (s\<lparr>cellEdits := edits\<rparr>)) = length (dataToExport h s)"
  by (simp add: filteredAndSortedCompanies_def handleValueChange_def handleRevert_def
        dataToExport_def)

theorem visible_sequence_ignores_overrides_witness:
  "filteredAndSortedCompanies example_host
     (handleValueChange ''Acme Roofing'' ''state'' ''CA'' example_state)
     = filteredAndSortedCompanies example_host example_state
   \<and> filteredAndSortedCompanies example_host
       (handleRevert ''Acme Roofing'' ''pe_backed'' example_state)
     = filteredAndSortedCompanies example_host example_state"
  using visible_sequence_ignores_overrides
          [where h = example_host and s = example_state and edits = "[]"
             and c = "''Acme Roofing''" and k = "''state''" and v = "''CA''"]
        visible_sequence_ignores_overrides
          [where h = example_host and s = example_state and edits = "[]"
             and c = "''Acme Roofing''" and k = "''pe_backed''" and v = "''CA''"]
  by simp

subsection \<open>The edit overlay\<close>

lemma delete_empty_iff:
  "AList.delete k al = [] \<longleftrightarrow> (\<forall>k'. k' \<noteq> k \<longrightarrow> map_of al k' = None)"
  by (induction al) (auto simp: AList.delete_eq)

lemma lookup2_set_nested:
  "lookup2 (set_nested c k v ov) c' k' = (if c' = c \<and> k' = k then Some v else lookup2 ov c' k')"
  by (auto simp: lookup2_def set_nested_def update_conv' split: option.splits)

lemma map_of_set_nested_other:
  "c' \<noteq> c \<Longrightarrow> map_of (set_nested c k v ov) c' = map_of ov c'"
  by (simp add: set_nested_def update_conv')

lemma lookup2_revert_edit:
  "lookup2 (revert_edit c k ov) c' k' = (if c' = c \<and> k' = k then None else lookup2 ov c' k')"
proof (cases "map_of ov c")
  case None
  then show ?thesis by (auto simp: lookup2_def revert_edit_def)
next
  case (Some inner)
  show ?thesis
  proof (cases "AList.delete k inner = []")
    case True
    then have "\<forall>k'. k' \<noteq> k \<longrightarrow> map_of inner k' = None" by (simp add: delete_empty_iff)
    with True Some show ?thesis
      by (auto simp: lookup2_def revert_edit_def delete_conv' split: option.splits)
  next
    case False
    with Some show ?thesis
      by (auto simp: lookup2_def revert_edit_def update_conv' delete_conv' split: option.splits)
  qed
qed

lemma map_of_revert_edit_other:
  "c' \<noteq> c \<Longrightarrow> map_of (revert_edit c k ov) c' = map_of ov c'"
  by (auto simp: revert_edit_def Let_def update_conv' delete_conv' split: option.splits)

lemma revert_edit_no_residue: "map_of (revert_edit c k ov) c \<noteq> Some []"
  by (auto simp: revert_edit_def Let_def update_conv' delete_conv' split: option.splits)

lemma revert_edit_last:
  assumes "\<forall>k'. k' \<noteq> k \<longrightarrow> lookup2 ov c k' = None"
  shows "map_of (revert_edit c k ov) c = None"
proof (cases "map_of ov c")
  case None
  then show ?thesis by (simp add: revert_edit_def)
next
  case (Some inner)
  with assms have "AList.delete k inner = []"
    by (simp add: delete_empty_iff lookup2_def)
  with Some show ?thesis by (simp add: revert_edit_def delete_conv')
qed

text \<open>
  C4. Storing an override for a company and a field shows the override in that cell;
  reverting it then shows the record's original value again (which is what the cell
  showed before, when the field had no override), removes the override of that company
  and field and changes no other company's or field's override; and when the company
  has no override for another field, its entry is gone from the map. No company is ever
  left with an empty entry by a revert.
\<close>

theorem edit_then_revert:
  "(company_name company = c \<and> field_name fld = k \<longrightarrow>
      currentValue (handleValueChange c k v s) company fld = VStr v
      \<and> currentValue (handleRevert c k (handleValueChange c k v s)) company fld
          = originalValue company fld
      \<and> (lookup2 (cellEdits s) c k = None \<longrightarrow>
           currentValue (handleRevert c k (handleValueChange c k v s)) company fld
             = currentValue s company fld))
   \<and> lookup2 (cellEdits (handleRevert c k (handleValueChange c k v s))) c k = None
   \<and> (\<forall>c' k'. (c', k') \<noteq> (c, k) \<longrightarrow>
         lookup2 (cellEdits (handleRevert c k (handleValueChange c k v s))) c' k'
           = lookup2 (cellEdits s) c' k')
   \<and> (\<forall>c'. c' \<noteq> c \<longrightarrow>
         map_of (cellEdits (handleRevert c k (handleValueChange c k v s))) c'
           = map_of (cellEdits s) c')
   \<and> ((\<forall>k'. k' \<noteq> k \<longrightarrow> lookup2 (cellEdits s) c k' = None) \<longrightarrow>
         map_of (cellEdits (handleRevert c k (handleValueChange c k v s))) c = None)
   \<and> map_of (cellEdits (handleRevert c k (handleValueChange c k v s))) c \<noteq> Some []"
proof -
  let ?e1 = "set_nested c k v (cellEdits s)"
  let ?e2 = "revert_edit c k ?e1"
  have e2: "cellEdits (handleRevert c k (handleValueChange c k v s)) = ?e2"
    and e1: "cellEdits (handleValueChange c k v s) = ?e1"
    by (simp_all add: handleRevert_def handleValueChange_def)
  have last: "(\<forall>k'. k' \<noteq> k \<longrightarrow> lookup2 (cellEdits s) c k' = None) \<longrightarrow> map_of ?e2 c = None"
  proof
    assume "\<forall>k'. k' \<noteq> k \<longrightarrow> lookup2 (cellEdits s) c k' = None"
    then have "\<forall>k'. k' \<noteq> k \<longrightarrow> lookup2 ?e1 c k' = None"
      by (simp add: lookup2_set_nested)
    then show "map_of ?e2 c = None" by (rule revert_edit_last)
  qed
  show ?thesis
    unfolding e2
    using last
    by (auto simp: currentValue_def editedValue_def e1 e2 lookup2_revert_edit
          lookup2_set_nested map_of_revert_edit_other map_of_set_nested_other
          revert_edit_no_residue)
qed

theorem edit_then_revert_witness:
  "company_name acme = ''Acme Roofing'' \<and> field_name Est_yoy_growth = ''est_yoy_growth''
   \<and> currentValue (handleValueChange ''Acme Roofing'' ''est_yoy_growth'' ''12%'' example_state)
        acme Est_yoy_growth = VStr ''12%''
   \<and> currentValue
        (handleRevert ''Acme Roofing'' ''est_yoy_growth''
           (handleValueChange ''Acme Roofing'' ''est_yoy_growth'' ''12%'' example_state))
        acme Est_yoy_growth = VStr ''Unknown''
   \<and> lookup2 (cellEdits
        (handleRevert ''Acme Roofing'' ''est_yoy_growth''
           (handleValueChange ''Acme Roofing'' ''est_yoy_growth'' ''12%'' example_state)))
        ''Acme Roofing'' ''pe_backed'' = Some ''Yes''
   \<and> map_of (cellEdits
        (handleRevert ''Zenith Roofing'' ''state''
           (handleValueChange ''Zenith Roofing'' ''state'' ''TX'' example_state)))
        ''Zenith Roofing'' = None"
proof -
  have a: "company_name acme = ''Acme Roofing'' \<and> field_name Est_yoy_growth = ''est_yoy_growth''"
    by (simp add: acme_def)
  have o: "originalValue acme Est_yoy_growth = VStr ''Unknown''"
    by (simp add: originalValue_def acme_def)
  have p: "lookup2 (cellEdits example_state) ''Acme Roofing'' ''pe_backed'' = Some ''Yes''"
    by (simp add: example_state_def example_edits_def lookup2_def)
  have z: "\<forall>k'. k' \<noteq> ''state'' \<longrightarrow> lookup2 (cellEdits example_state) ''Zenith Roofing'' k' = None"
    by (simp add: example_state_def example_edits_def lookup2_def)
  from edit_then_revert [where s = example_state and company = acme and fld = Est_yoy_growth
          and c = "''Acme Roofing''" and k = "''est_yoy_growth''" and v = "''12%''"]
       edit_then_revert [where s = example_state and company = zenith and fld = State
          and c = "''Zenith Roofing''" and k = "''state''" and v = "''TX''"]
       a o p z
  show ?thesis by simp
qed

subsection \<open>Filtering\<close>







lemma set_insert_sorted: "set (insert_sorted cmp x xs) = insert x (set xs)"
  by (induction xs) auto

lemma set_array_sort: "set (array_sort cmp xs) = set xs"
  unfolding array_sort_def by (induction xs) (auto simp: set_insert_sorted)




subsection \<open>Sorting\<close>

lemma distinct_insert_sorted:
  "distinct xs \<Longrightarrow> x \<notin> set xs \<Longrightarrow> distinct (insert_sorted cmp x xs)"
  by (induction xs) (auto simp: set_insert_sorted)

lemma distinct_array_sort: "distinct xs \<Longrightarrow> distinct (array_sort cmp xs)"
  unfolding array_sort_def
proof (induction xs)
  case Nil
  then show ?case by simp
next
  case (Cons x xs)
  have "set (foldr (insert_sorted cmp) xs []) = set xs"
    by (induction xs) (auto simp: set_insert_sorted)
  with Cons show ?case by (simp add: distinct_insert_sorted)
qed

lemma consistent_refl: "consistent_on S cmp \<Longrightarrow> a \<in> S \<Longrightarrow> cmp a a = 0"
  unfolding consistent_on_def by (metis less_asym linorder_neqE_linordered_idom)

lemma le_total:
  "consistent_on S cmp \<Longrightarrow> a \<in> S \<Longrightarrow> b \<in> S \<Longrightarrow> cmp a b \<le> 0 \<or> cmp b a \<le> 0"
  unfolding consistent_on_def by (metis less_le_not_le linorder_le_cases)

lemma le_trans:
  assumes "consistent_on S cmp" "no_ties_on S cmp" "a \<in> S" "b \<in> S" "c \<in> S"
    and "cmp a b \<le> 0" "cmp b c \<le> 0"
  shows "cmp a c \<le> 0"
proof (cases "a = b \<or> b = c")
  case True
  with assms show ?thesis by auto
next
  case False
  with assms have "cmp a b < 0" "cmp b c < 0"
    unfolding no_ties_on_def by (metis order_le_less)+
  with assms have "cmp a c < 0" unfolding consistent_on_def by blast
  then show ?thesis by simp
qed

lemma le_antisym:
  assumes "consistent_on S cmp" "no_ties_on S cmp" "a \<in> S" "b \<in> S"
    and "cmp a b \<le> 0" "cmp b a \<le> 0"
  shows "a = b"
proof (rule ccontr)
  assume "a \<noteq> b"
  with assms have "cmp a b < 0" "cmp b a < 0"
    unfolding no_ties_on_def by (metis order_le_less)+
  with assms show False unfolding consistent_on_def by (metis less_asym)
qed

lemma sorted_insert_sorted:
  assumes "consistent_on S cmp" "no_ties_on S cmp" "x \<in> S" "set ys \<subseteq> S"
    and "sorted_wrt (\<lambda>a b. cmp a b \<le> 0) ys"
  shows "sorted_wrt (\<lambda>a b. cmp a b \<le> 0) (insert_sorted cmp x ys)"
  using assms(4,5)
proof (induction ys)
  case Nil
  then show ?case by simp
next
  case (Cons y ys)
  show ?case
  proof (cases "cmp x y \<le> 0")
    case True
    have "cmp x z \<le> 0" if "z \<in> set ys" for z
    proof -
      from Cons.prems that have "cmp y z \<le> 0" "z \<in> S" "y \<in> S" by auto
      with True assms(1,2,3) show ?thesis using le_trans [of S cmp x y z] by blast
    qed
    with True Cons.prems show ?thesis by auto
  next
    case False
    from Cons.prems have "y \<in> S" by simp
    with False assms(1,3) have "cmp y x \<le> 0" using le_total [of S cmp x y] by blast
    with False Cons show ?thesis by (auto simp: set_insert_sorted)
  qed
qed

lemma sorted_array_sort:
  assumes "consistent_on S cmp" "no_ties_on S cmp" "set xs \<subseteq> S"
  shows "sorted_wrt (\<lambda>a b. cmp a b \<le> 0) (array_sort cmp xs)"
  using assms(3) unfolding array_sort_def
proof (induction xs)
  case Nil
  then show ?case by simp
next
  case (Cons x xs)
  have s: "set (foldr (insert_sorted cmp) xs []) = set xs"
    by (induction xs) (auto simp: set_insert_sorted)
  from Cons have "sorted_wrt (\<lambda>a b. cmp a b \<le> 0) (foldr (insert_sorted cmp) xs [])" by simp
  with Cons.prems s show ?case
    using sorted_insert_sorted [OF assms(1,2), of x "foldr (insert_sorted cmp) xs []"] by simp
qed

lemma sorted_wrt_unique:
  assumes "\<forall>a \<in> set xs. \<forall>b \<in> set xs. R a b \<and> R b a \<longrightarrow> a = b"
    and "sorted_wrt R xs" "sorted_wrt R ys" "distinct xs" "distinct ys" "set xs = set ys"
  shows "xs = ys"
  using assms
proof (induction xs arbitrary: ys)
  case Nil
  then show ?case by simp
next
  case (Cons x xs)
  then obtain y ys' where ys: "ys = y # ys'" by (cases ys) auto
  have "x = y"
  proof (rule ccontr)
    assume ne: "x \<noteq> y"
    with Cons.prems ys have "x \<in> set ys'" "y \<in> set xs" by auto
    with Cons.prems ys have "R y x" "R x y" by auto
    with Cons.prems(1) ys ne show False using Cons.prems(6) by auto
  qed
  moreover from Cons.prems ys this have "set xs = set ys'" by auto
  moreover note Cons.prems ys
  ultimately have "xs = ys'" by (intro Cons.IH) auto
  with \<open>x = y\<close> ys show ?case by simp
qed

lemma consistent_on_negate:
  "consistent_on S cmp \<Longrightarrow> consistent_on S (\<lambda>a b. - cmp a b)"
  unfolding consistent_on_def by (simp; blast)

lemma no_ties_on_negate: "no_ties_on S cmp \<Longrightarrow> no_ties_on S (\<lambda>a b. - cmp a b)"
  unfolding no_ties_on_def by simp

lemma sort_negated_is_reverse:
  assumes c: "consistent_on S cmp" and n: "no_ties_on S cmp"
    and sub: "set xs \<subseteq> S" and d: "distinct xs"
  shows "array_sort (\<lambda>a b. - cmp a b) xs = rev (array_sort cmp xs)"
proof -
  let ?A = "array_sort cmp xs" and ?D = "array_sort (\<lambda>a b. - cmp a b) xs"
  have setA: "set ?A = set xs" and setD: "set ?D = set xs" by (simp_all add: set_array_sort)
  have sA: "sorted_wrt (\<lambda>a b. cmp a b \<le> 0) ?A" by (rule sorted_array_sort [OF c n sub])
  have "sorted_wrt (\<lambda>a b. - cmp a b \<le> 0) ?D"
    by (rule sorted_array_sort [OF consistent_on_negate [OF c] no_ties_on_negate [OF n] sub])
  then have "sorted_wrt (\<lambda>a b. - cmp b a \<le> 0) (rev ?D)" by (simp add: sorted_wrt_rev)
  then have sD: "sorted_wrt (\<lambda>a b. cmp a b \<le> 0) (rev ?D)"
  proof (rule sorted_wrt_mono_rel [rotated])
    fix a b assume "a \<in> set (rev ?D)" "b \<in> set (rev ?D)" "- cmp b a \<le> 0"
    with setD sub have "a \<in> S" "b \<in> S" "0 \<le> cmp b a" by auto
    with c show "cmp a b \<le> 0" unfolding consistent_on_def by (metis not_le)
  qed
  have "?A = rev ?D"
  proof (rule sorted_wrt_unique [OF _ sA sD])
    show "\<forall>a \<in> set ?A. \<forall>b \<in> set ?A. cmp a b \<le> 0 \<and> cmp b a \<le> 0 \<longrightarrow> a = b"
      using le_antisym [OF c n] setA sub by blast
    show "distinct ?A" by (rule distinct_array_sort [OF d])
    show "distinct (rev ?D)" by (simp add: distinct_array_sort [OF d])
    show "set ?A = set (rev ?D)" by (simp add: setA setD)
  qed
  then show ?thesis by simp
qed

lemma apply_filters_sublist:
  "set (apply_filters fs cs) \<subseteq> set cs \<and> (distinct cs \<longrightarrow> distinct (apply_filters fs cs))"
proof -
  have "set (foldl (\<lambda>result k. if fs k \<noteq> [] then filter (filter_keeps k (fs k)) result
                                 else result) cs ks) \<subseteq> set cs
        \<and> (distinct cs \<longrightarrow>
             distinct (foldl (\<lambda>result k. if fs k \<noteq> [] then filter (filter_keeps k (fs k)) result
                                          else result) cs ks))" for ks
  proof (induction ks arbitrary: cs)
    case Nil
    then show ?case by simp
  next
    case (Cons k ks)
    show ?case
    proof (cases "fs k \<noteq> []")
      case True
      with Cons.IH [of "filter (filter_keeps k (fs k)) cs"] show ?thesis by auto
    next
      case False
      with Cons.IH [of cs] show ?thesis by simp
    qed
  qed
  then show ?thesis by (simp add: apply_filters_def)
qed

text \<open>
  C9. When no record occurs twice, the comparison of the sort column is consistent on
  the records and no two records compare equal, the sequence sorted descending on a
  column is the exact reverse of the sequence sorted ascending on that column; the
  descending comparator is the negation of the ascending one.
\<close>

theorem descending_is_reverse_of_ascending:
  assumes "distinct (companies s)"
    and "consistent_on (set (companies s)) (compareFn h \<lparr>columnAccessor = col, direction = Asc\<rparr>)"
    and "no_ties_on (set (companies s)) (compareFn h \<lparr>columnAccessor = col, direction = Asc\<rparr>)"
  shows "filteredAndSortedCompanies h (s\<lparr>sortStatus := \<lparr>columnAccessor = col, direction = Desc\<rparr>\<rparr>)
           = rev (filteredAndSortedCompanies h
                    (s\<lparr>sortStatus := \<lparr>columnAccessor = col, direction = Asc\<rparr>\<rparr>))
         \<and> compareFn h \<lparr>columnAccessor = col, direction = Desc\<rparr>
             = (\<lambda>a b. - compareFn h \<lparr>columnAccessor = col, direction = Asc\<rparr> a b)"
proof -
  let ?asc = "compareFn h \<lparr>columnAccessor = col, direction = Asc\<rparr>"
  let ?xs = "apply_filters (filters s) (companies s)"
  have neg: "compareFn h \<lparr>columnAccessor = col, direction = Desc\<rparr> = (\<lambda>a b. - ?asc a b)"
    by (simp add: compareFn_def Let_def fun_eq_iff)
  from apply_filters_sublist [of "filters s" "companies s"] assms(1)
  have sub: "set ?xs \<subseteq> set (companies s)" and d: "distinct ?xs" by auto
  have "array_sort (\<lambda>a b. - ?asc a b) ?xs = rev (array_sort ?asc ?xs)"
    by (rule sort_negated_is_reverse [OF assms(2,3) sub d])
  with neg show ?thesis by (simp add: filteredAndSortedCompanies_def)
qed

theorem descending_is_reverse_of_ascending_witness:
  "distinct (companies (example_state\<lparr>companies := [zenith, acme, summit]\<rparr>))
   \<and> consistent_on (set (companies (example_state\<lparr>companies := [zenith, acme, summit]\<rparr>)))
        (compareFn example_host \<lparr>columnAccessor = State, direction = Asc\<rparr>)
   \<and> no_ties_on (set (companies (example_state\<lparr>companies := [zenith, acme, summit]\<rparr>)))
        (compareFn example_host \<lparr>columnAccessor = State, direction = Asc\<rparr>)
   \<and> filteredAndSortedCompanies example_host
        (example_state\<lparr>companies := [zenith, acme, summit],
                       sortStatus := \<lparr>columnAccessor = State, direction = Asc\<rparr>\<rparr>)
       = [summit, zenith, acme]
   \<and> filteredAndSortedCompanies example_host
        (example_state\<lparr>companies := [zenith, acme, summit],
                       sortStatus := \<lparr>columnAccessor = State, direction = Desc\<rparr>\<rparr>)
       = [acme, zenith, summit]"
proof -
  let ?s = "example_state\<lparr>companies := [zenith, acme, summit]\<rparr>"
  have c: "companies ?s = [zenith, acme, summit]" by simp
  have d: "distinct (companies ?s)" unfolding c by code_simp
  have k: "consistent_on (set (companies ?s))
             (compareFn example_host \<lparr>columnAccessor = State, direction = Asc\<rparr>)"
    unfolding c consistent_on_def by code_simp
  have n: "no_ties_on (set (companies ?s))
             (compareFn example_host \<lparr>columnAccessor = State, direction = Asc\<rparr>)"
    unfolding c no_ties_on_def by code_simp
  have asc: "filteredAndSortedCompanies example_host
               (?s\<lparr>sortStatus := \<lparr>columnAccessor = State, direction = Asc\<rparr>\<rparr>)
             = [summit, zenith, acme]"
    by code_simp
  from descending_is_reverse_of_ascending [OF d k n] asc
  have "filteredAndSortedCompanies example_host
          (?s\<lparr>sortStatus := \<lparr>columnAccessor = State, direction = Desc\<rparr>\<rparr>)
        = [acme, zenith, summit]"
    by simp
  with d k n asc show ?thesis by simp
qed

subsection \<open>CSV export\<close>




















end
